theory Spec2Isabelle
  imports Complex_Main "HOL-Library.Signed_Division" "HOL-Library.Sublist"
begin

section \<open>Shape inference engine of torch_glow (ShapeInferenceEngine.cpp)\<close>

text \<open>
  The engine computes, for every value of a TorchScript graph, a tensor shape or an integer
  payload. The theory embeds the functions of \<^verbatim>\<open>ShapeInferenceEngine.cpp\<close> one by one.

  Conventions of the embedding.
  \<^item> \<^verbatim>\<open>int64_t\<close> is \<open>int\<close>: the model covers the executions without signed overflow
    (overflow of a signed integer is undefined in C++). \<^verbatim>\<open>/\<close> and \<^verbatim>\<open>%\<close> truncate towards
    zero, so they are \<open>sdiv\<close> and \<open>smod\<close>, guarded by a test for a zero divisor.
  \<^item> \<^verbatim>\<open>Expected<T>\<close> is \<open>failure + T\<close>. A failure is either an \<^verbatim>\<open>Error\<close> value made by
    \<^verbatim>\<open>MAKE_ERR\<close> or \<^verbatim>\<open>RETURN_ERR_IF_NOT\<close> (constructor \<open>Err\<close>: the format string with its
    integer arguments beside it), or a \<open>Fault\<close>: the places where the C++ does not return
    at all (an out-of-range \<^verbatim>\<open>operator[]\<close>, a division by zero, a failed \<^verbatim>\<open>CHECK\<close>, an
    exception thrown by a library call).
  \<^item> A \<^verbatim>\<open>for\<close> loop is a recursive function or a \<open>map\<close> over the index range.
  \<^item> Source names that are constants or keywords of Isabelle are changed: the wrapped
    \<^verbatim>\<open>dim\<close> is \<open>wdim\<close> (\<open>n\<close> in \<open>binaryOp\<close>), \<^verbatim>\<open>start\<close> and \<^verbatim>\<open>end\<close> are \<open>startv\<close> and \<open>endv\<close>,
    \<^verbatim>\<open>t\<close> and \<^verbatim>\<open>transpose\<close> are \<open>t_op\<close> and \<open>transpose_op\<close>.
\<close>

subsection \<open>Failures\<close>

datatype fault =
    IndexOutOfRange   \<comment> \<open>\<^verbatim>\<open>operator[]\<close> outside the vector: undefined behaviour\<close>
  | BadVariantGet     \<comment> \<open>\<^verbatim>\<open>shape<T>()\<close> on a record holding the other alternative\<close>
  | DivisionByZero    \<comment> \<open>\<^verbatim>\<open>/\<close> or \<^verbatim>\<open>%\<close> with divisor 0\<close>
  | DimOutOfRange     \<comment> \<open>exception of \<^verbatim>\<open>at::maybe_wrap_dim\<close>\<close>
  | CheckFailed       \<comment> \<open>\<^verbatim>\<open>CHECK\<close> / \<^verbatim>\<open>CHECK_EQ\<close> aborts the process\<close>
  | LibraryException  \<comment> \<open>exception or assertion of a torch accessor\<close>

datatype failure = Err string "int list" | Fault fault

definition bindE :: "failure + 'a \<Rightarrow> ('a \<Rightarrow> failure + 'b) \<Rightarrow> failure + 'b" where
  "bindE m f = (case m of Inl e \<Rightarrow> Inl e | Inr x \<Rightarrow> f x)"

fun mapE :: "('a \<Rightarrow> failure + 'b) \<Rightarrow> 'a list \<Rightarrow> failure + 'b list" where
  "mapE f [] = Inr []"
| "mapE f (x # xs) =
     (case f x of Inl e \<Rightarrow> Inl e
      | Inr y \<Rightarrow> (case mapE f xs of Inl e \<Rightarrow> Inl e | Inr ys \<Rightarrow> Inr (y # ys)))"

text \<open>\<^verbatim>\<open>v[i]\<close> on a \<^verbatim>\<open>std::vector\<close>, the index an \<^verbatim>\<open>int64_t\<close> or a \<^verbatim>\<open>size_t\<close> expression: a
  negative index wraps to a huge \<^verbatim>\<open>size_t\<close> and is outside the vector like one that is too
  large.\<close>

definition idx :: "'a list \<Rightarrow> int \<Rightarrow> failure + 'a" where
  "idx xs i = (if 0 \<le> i \<and> i < int (length xs) then Inr (xs ! nat i) else Inl (Fault IndexOutOfRange))"

definition divE :: "int \<Rightarrow> int \<Rightarrow> failure + int" where
  "divE a b = (if b = 0 then Inl (Fault DivisionByZero) else Inr (a sdiv b))"

definition modE :: "int \<Rightarrow> int \<Rightarrow> failure + int" where
  "modE a b = (if b = 0 then Inl (Fault DivisionByZero) else Inr (a smod b))"

subsection \<open>Shape and value records\<close>

text \<open>Modelled from the spec: the types of \<^verbatim>\<open>ShapeInferenceEngine.h\<close>, which is not under
  src/. A Value Record is a list of shape entries, each a single shape or a list of shapes,
  with an integer payload; \<^verbatim>\<open>shape<T>()\<close> reads the first entry as alternative \<^verbatim>\<open>T\<close>. The
  source never assigns the \<^verbatim>\<open>dtype\<close> field, so it has its one default value.\<close>

type_synonym TensorShape = "int list"
type_synonym TensorListShape = "int list list"

datatype ElemShape = TShape TensorShape | TListShape TensorListShape

datatype ScalarType = DefaultScalarType

record VariableMeta =
  listOfShape :: "ElemShape list"
  intValue :: "int list"
  dtype :: ScalarType

type_synonym MetaStack = "VariableMeta list"

definition emptyMeta :: VariableMeta where
  "emptyMeta = \<lparr>listOfShape = [], intValue = [], dtype = DefaultScalarType\<rparr>"

definition shapeT :: "VariableMeta \<Rightarrow> failure + TensorShape" where
  "shapeT vm =
     (case listOfShape vm of
        [] \<Rightarrow> Inl (Fault IndexOutOfRange)
      | TShape s # _ \<Rightarrow> Inr s
      | TListShape _ # _ \<Rightarrow> Inl (Fault BadVariantGet))"

definition shapeL :: "VariableMeta \<Rightarrow> failure + TensorListShape" where
  "shapeL vm =
     (case listOfShape vm of
        [] \<Rightarrow> Inl (Fault IndexOutOfRange)
      | TShape _ # _ \<Rightarrow> Inl (Fault BadVariantGet)
      | TListShape l # _ \<Rightarrow> Inr l)"

text \<open>Modelled from the spec: \<^verbatim>\<open>at::maybe_wrap_dim(dim, dim_post_expr)\<close> is declared in
  \<^verbatim>\<open>ATen/WrapDimUtils.h\<close>, a library header that is not under src/. It is Python-style
  wrapping into \<open>[0, rank)\<close>: a negative dimension counts from the end, a dimension outside
  \<open>[-rank, rank - 1]\<close> raises an exception; as in ATen, a rank of 0 is treated as rank 1.\<close>

definition maybe_wrap_dim :: "int \<Rightarrow> int \<Rightarrow> failure + int" where
  "maybe_wrap_dim d dim_post_expr =
     (let n = (if dim_post_expr \<le> 0 then 1 else dim_post_expr) in
      if d < - n \<or> n - 1 < d then Inl (Fault DimOutOfRange)
      else Inr (if d < 0 then d + n else d))"

subsection \<open>Shape functions\<close>

text \<open>The splitting arithmetic shared by \<^verbatim>\<open>constantChunk\<close> and \<^verbatim>\<open>chunk\<close>: the lines from
  \<^verbatim>\<open>maybe_wrap_dim\<close> to the end of the loop, which are the same text in both functions.\<close>

definition constantChunk :: "MetaStack \<Rightarrow> int \<Rightarrow> int \<Rightarrow> failure + TensorListShape" where
  "constantChunk variableMetas chunks dim0 =
     (if length variableMetas \<noteq> 1
      then Inl (Err ''Expected one input, got %zu.'' [int (length variableMetas)])
      else
        bindE (shapeT (variableMetas ! 0)) (\<lambda>t.
        bindE (maybe_wrap_dim dim0 (int (length t))) (\<lambda>wdim.
        bindE (idx t wdim) (\<lambda>e.
        bindE (divE (e + chunks - 1) chunks) (\<lambda>c.
          let r = e - c * (chunks - 1) in
          Inr (map (\<lambda>i. t[nat wdim := (if int i = chunks - 1 then r else c)]) [0 ..< nat chunks]))))))"

definition chunk :: "MetaStack \<Rightarrow> failure + TensorListShape" where
  "chunk variableMetas =
     (if length variableMetas \<noteq> 3
      then Inl (Err ''Expected one input, got %zu.'' [int (length variableMetas)])
      else
        bindE (shapeT (variableMetas ! 0)) (\<lambda>t.
        bindE (idx (intValue (variableMetas ! 1)) 0) (\<lambda>chunks.
        bindE (idx (intValue (variableMetas ! 2)) 0) (\<lambda>dim0.
        bindE (maybe_wrap_dim dim0 (int (length t))) (\<lambda>wdim.
        bindE (idx t wdim) (\<lambda>e.
        bindE (divE (e + chunks - 1) chunks) (\<lambda>c.
          let r = e - c * (chunks - 1) in
          Inr (map (\<lambda>i. t[nat wdim := (if int i = chunks - 1 then r else c)]) [0 ..< nat chunks]))))))))"

text \<open>\<^verbatim>\<open>binaryOp\<close> (aten::add, sub, mul, pow). One turn of the loop computes the extent written
  at position \<open>dim + j\<close>; the index expressions \<open>d0 + j\<close> and \<open>d1 + j\<close> are those of the source,
  and \<^verbatim>\<open>||\<close> evaluates its right operand only when the left one is false.\<close>

definition sizeMismatch :: "int \<Rightarrow> int \<Rightarrow> failure" where
  "sizeMismatch a b =
     Err ''The size of tensor a (%zu) must match the size of tensor b (%zu)at non-singleton dimension 1.'' [a, b]"

definition binaryOp_elem :: "TensorShape \<Rightarrow> TensorShape \<Rightarrow> nat \<Rightarrow> failure + int" where
  "binaryOp_elem t0 t1 i =
     (let d0 = int (length t0); d1 = int (length t1); j = - 1 - int i in
      bindE (if d0 \<le> int i then Inr True else bindE (idx t0 (d0 + j)) (\<lambda>a. Inr (a = 1))) (\<lambda>c0.
      if c0 then idx t1 (d1 + j)
      else
        bindE (if d1 \<le> int i then Inr True else bindE (idx t1 (d1 + j)) (\<lambda>b. Inr (b = 1))) (\<lambda>c1.
        if c1 then idx t0 (d0 + j)
        else
          bindE (idx t1 (d1 + j)) (\<lambda>b.
          bindE (idx t0 (d0 + j)) (\<lambda>a.
            if b \<noteq> a
            then Inl (sizeMismatch a b)
            else Inr b)))))"

function binaryOp_loop ::
  "TensorShape \<Rightarrow> TensorShape \<Rightarrow> nat \<Rightarrow> nat \<Rightarrow> TensorShape \<Rightarrow> failure + TensorShape" where
  "binaryOp_loop t0 t1 n i shape =
     (if i < n
      then (case binaryOp_elem t0 t1 i of
              Inl e \<Rightarrow> Inl e
            | Inr v \<Rightarrow> binaryOp_loop t0 t1 n (Suc i) (shape[n - 1 - i := v]))
      else Inr shape)"
  by pat_completeness auto
termination
  by (relation "measure (\<lambda>(t0, t1, n, i, shape). n - i)") auto

definition binaryOp :: "MetaStack \<Rightarrow> failure + TensorShape" where
  "binaryOp variableMetas =
     (if length variableMetas \<noteq> 2 \<and> length variableMetas \<noteq> 3
      then Inl (Err ''Expected two or three inputs shapes of this operation.'' [])
      else
        bindE (shapeT (variableMetas ! 0)) (\<lambda>t0.
        bindE (shapeT (variableMetas ! 1)) (\<lambda>t1.
          if length t1 = 1 then Inr t0
          else
            let n = max (length t0) (length t1) in
            binaryOp_loop t0 t1 n 0 (replicate n 0))))"

definition mm :: "MetaStack \<Rightarrow> failure + TensorShape" where
  "mm variableMetas =
     (if length variableMetas \<noteq> 2
      then Inl (Err ''Expected two inputs shapes of this operation.'' [])
      else
        bindE (shapeT (variableMetas ! 0)) (\<lambda>t0.
        bindE (shapeT (variableMetas ! 1)) (\<lambda>t1.
          if \<not> (length t1 = 2 \<and> length t0 = 2)
          then Inl (Err ''Expected 2-dimensional tensor.'' [])
          else if t0 ! 1 \<noteq> t1 ! 0
          then Inl (Err ''The size of tensor a (%zu) at dimension 1 must match the size of tensor b (%zu) at dimension 0.'' [t0 ! 1, t1 ! 0])
          else Inr [t0 ! 0, t1 ! 1])))"

definition bmm :: "MetaStack \<Rightarrow> failure + TensorShape" where
  "bmm variableMetas =
     (if length variableMetas \<noteq> 2
      then Inl (Err ''Expected two inputs shapes of this operation.'' [])
      else
        bindE (shapeT (variableMetas ! 0)) (\<lambda>t0.
        bindE (shapeT (variableMetas ! 1)) (\<lambda>t1.
          if \<not> (length t0 = 3 \<and> length t1 = 3)
          then Inl (Err ''Expected 3-dimensional tensor.'' [])
          else if t0 ! 0 \<noteq> t1 ! 0
          then Inl (Err ''Expected tensors to have same size at dimension 0'' [])
          else if t0 ! 2 \<noteq> t1 ! 1
          then Inl (Err ''The size of tensor a (%zu) at dimension 2 mustmatch the size of tensor b (%zu) at dimension 1'' [t0 ! 2, t1 ! 1])
          else Inr [t0 ! 0, t0 ! 1, t1 ! 2])))"

definition addmm :: "MetaStack \<Rightarrow> failure + TensorShape" where
  "addmm variableMetas =
     (if \<not> (3 \<le> length variableMetas)
      then Inl (Err ''Expected at least three inputs shapes, got %zu.'' [int (length variableMetas)])
      else
        let t0 = variableMetas ! 0; t1 = variableMetas ! 1; t2 = variableMetas ! 2 in
        bindE (shapeT t2) (\<lambda>s2.
        bindE (if length s2 = 1 then Inr t1
               else bindE (mm [t1, t2]) (\<lambda>s. Inr (emptyMeta\<lparr>listOfShape := [TShape s]\<rparr>))) (\<lambda>t.
          binaryOp [t0, t])))"

text \<open>\<^verbatim>\<open>t\<close> (aten::t), the transpose without axis arguments.\<close>

definition t_op :: "MetaStack \<Rightarrow> failure + TensorShape" where
  "t_op variableMetas =
     (if length variableMetas \<noteq> 1
      then Inl (Err ''Expected one input, got %zu.'' [int (length variableMetas)])
      else
        bindE (shapeT (variableMetas ! 0)) (\<lambda>t0.
          if length t0 = 1 then Inr t0
          else if length t0 = 2 then Inr [t0 ! 1, t0 ! 0]
          else Inl (Err ''Expected tensor <= 2-D, got %zu-D.'' [int (length t0)])))"

text \<open>\<^verbatim>\<open>transpose\<close> (aten::transpose) with two axes; \<^verbatim>\<open>std::swap\<close> reads both elements.\<close>

definition transpose_op :: "MetaStack \<Rightarrow> failure + TensorShape" where
  "transpose_op variableMetas =
     (if length variableMetas \<noteq> 3
      then Inl (Err ''Expect 3 inputs, get %zu'' [int (length variableMetas)])
      else if length (intValue (variableMetas ! 1)) \<noteq> 1 then Inl (Err ''Expect 1 int dimension'' [])
      else if length (intValue (variableMetas ! 2)) \<noteq> 1 then Inl (Err ''Expect 1 int dimension'' [])
      else
        bindE (shapeT (variableMetas ! 0)) (\<lambda>shape.
          let inDims = int (length shape) in
          bindE (maybe_wrap_dim (intValue (variableMetas ! 1) ! 0) inDims) (\<lambda>dim0.
          bindE (maybe_wrap_dim (intValue (variableMetas ! 2) ! 0) inDims) (\<lambda>dim1.
          bindE (idx shape dim0) (\<lambda>a.
          bindE (idx shape dim1) (\<lambda>b.
            Inr (shape[nat dim0 := b, nat dim1 := a])))))))"

text \<open>\<^verbatim>\<open>cat\<close> (aten::cat): the checking loop over the tensors after the first, then the
  summing loop.\<close>

fun cat_check :: "TensorShape \<Rightarrow> int \<Rightarrow> TensorListShape \<Rightarrow> failure + unit" where
  "cat_check shape wdim [] = Inr ()"
| "cat_check shape wdim (s # rest) =
     (if length shape \<noteq> length s
      then Inl (Err ''All inputs must have the same number of dimensions.'' [])
      else if \<not> list_all (\<lambda>j. int j = wdim \<or> shape ! j = s ! j) [0 ..< length shape]
      then Inl (Err ''Sizes of tensors must match except in dimension %zu.'' [wdim])
      else cat_check shape wdim rest)"

fun cat_sum :: "TensorShape \<Rightarrow> int \<Rightarrow> TensorListShape \<Rightarrow> failure + TensorShape" where
  "cat_sum shape wdim [] = Inr shape"
| "cat_sum shape wdim (s # rest) =
     (case idx shape wdim of
        Inl e \<Rightarrow> Inl e
      | Inr a \<Rightarrow> (case idx s wdim of
                   Inl e \<Rightarrow> Inl e
                 | Inr b \<Rightarrow> cat_sum (shape[nat wdim := a + b]) wdim rest))"

definition cat :: "MetaStack \<Rightarrow> failure + TensorShape" where
  "cat variableMetas =
     (if length variableMetas \<noteq> 2
      then Inl (Err ''Expected 2 inputs, got %zu.'' [int (length variableMetas)])
      else
        bindE (shapeL (variableMetas ! 0)) (\<lambda>tensorListShapes.
        bindE (idx tensorListShapes 0) (\<lambda>shape.
          if length tensorListShapes = 1 then Inr shape
          else
            bindE (idx (intValue (variableMetas ! 1)) 0) (\<lambda>dim0.
            bindE (maybe_wrap_dim dim0 (int (length shape))) (\<lambda>wdim.
            bindE (cat_check shape wdim (tl tensorListShapes)) (\<lambda>_.
              cat_sum shape wdim (tl tensorListShapes)))))))"

definition flatten :: "MetaStack \<Rightarrow> failure + TensorShape" where
  "flatten variableMetas =
     (if length variableMetas \<noteq> 3
      then Inl (Err ''Expect 3 inputs, get %zu'' [int (length variableMetas)])
      else if length (intValue (variableMetas ! 1)) \<noteq> 1 then Inl (Err ''Expect 1 int dimension'' [])
      else if length (intValue (variableMetas ! 2)) \<noteq> 1 then Inl (Err ''Expect 1 int dimension'' [])
      else
        bindE (shapeT (variableMetas ! 0)) (\<lambda>t.
          let inDims = int (length t) in
          bindE (maybe_wrap_dim (intValue (variableMetas ! 1) ! 0) inDims) (\<lambda>startDim.
          bindE (maybe_wrap_dim (intValue (variableMetas ! 2) ! 0) inDims) (\<lambda>endDim.
            if startDim > endDim
            then Inl (Err ''start dimension should not be larger than end dimension'' [])
            else
              bindE (mapE (idx t) [0 .. startDim - 1]) (\<lambda>pre.
              bindE (mapE (idx t) [startDim .. endDim]) (\<lambda>mid.
              bindE (mapE (idx t) [endDim + 1 .. inDims - 1]) (\<lambda>post.
                Inr (pre @ [prod_list mid] @ post))))))))"

text \<open>\<^verbatim>\<open>fusedConcat\<close> (prim::FusedConcat): the inner loop over \<open>j\<close> adds at the concat axis
  and compares elsewhere, in one pass.\<close>

fun fusedConcat_row :: "TensorShape \<Rightarrow> TensorShape \<Rightarrow> int \<Rightarrow> nat list \<Rightarrow> failure + TensorShape" where
  "fusedConcat_row shape t wdim [] = Inr shape"
| "fusedConcat_row shape t wdim (j # js) =
     (if int j = wdim then fusedConcat_row (shape[j := shape ! j + t ! j]) t wdim js
      else if \<not> (shape ! j = t ! j)
      then Inl (Err ''Sizes of tensors must match except in dimension %zu.'' [wdim])
      else fusedConcat_row shape t wdim js)"

fun fusedConcat_loop :: "TensorShape \<Rightarrow> int \<Rightarrow> MetaStack \<Rightarrow> failure + TensorShape" where
  "fusedConcat_loop shape wdim [] = Inr shape"
| "fusedConcat_loop shape wdim (v # rest) =
     (case shapeT v of
        Inl e \<Rightarrow> Inl e
      | Inr t \<Rightarrow>
          if length shape \<noteq> length t
          then Inl (Err ''All inputs must have the same number of dimensions.'' [])
          else (case fusedConcat_row shape t wdim [0 ..< length shape] of
                  Inl e \<Rightarrow> Inl e
                | Inr shape' \<Rightarrow> fusedConcat_loop shape' wdim rest))"

definition fusedConcat :: "MetaStack \<Rightarrow> int \<Rightarrow> failure + TensorShape" where
  "fusedConcat variableMetas dim0 =
     (if \<not> (1 \<le> length variableMetas)
      then Inl (Err ''Expected at least 1 inputs, got %zu.'' [int (length variableMetas)])
      else if length variableMetas = 1 then shapeT (variableMetas ! 0)
      else
        bindE (shapeT (variableMetas ! 0)) (\<lambda>shape.
        bindE (maybe_wrap_dim dim0 (int (length shape))) (\<lambda>wdim.
          fusedConcat_loop shape wdim (tl variableMetas))))"

text \<open>\<^verbatim>\<open>slice\<close> (aten::slice). The axis \<open>dim0\<close> indexes the shape as it is given.\<close>

definition slice :: "MetaStack \<Rightarrow> failure + TensorShape" where
  "slice variableMetas =
     (if length variableMetas \<noteq> 5
      then Inl (Err ''Expected 5 inputs, got %zu.'' [int (length variableMetas)])
      else if \<not> list_all (\<lambda>i. length (intValue (variableMetas ! i)) = 1) [1 ..< 5]
      then Inl (Err ''Expected int in Slice.'' [])
      else
        let dim0 = intValue (variableMetas ! 1) ! 0;
            startv = intValue (variableMetas ! 2) ! 0;
            endv = intValue (variableMetas ! 3) ! 0;
            step = intValue (variableMetas ! 4) ! 0
        in
        bindE (shapeT (variableMetas ! 0)) (\<lambda>shape.
        bindE (idx shape dim0) (\<lambda>inDims.
          if startv \<ge> inDims \<or> endv \<le> - inDims then Inr (shape[nat dim0 := 0])
          else
            let start1 = (if startv \<le> - inDims then 0
                          else if startv > - inDims \<and> startv < 0 then startv + inDims
                          else startv);
                end1 = (if endv > inDims then inDims
                        else if endv > - inDims \<and> endv < 0 then endv + inDims
                        else endv)
            in
            if start1 \<ge> end1 then Inr (shape[nat dim0 := 0])
            else
              bindE (divE (end1 - start1) step) (\<lambda>q.
              bindE (modE (end1 - start1) step) (\<lambda>r.
                Inr (shape[nat dim0 := (if r \<noteq> 0 then q + 1 else q)]))))))"

text \<open>\<^verbatim>\<open>reshape\<close> (aten::reshape). The scan multiplies every target entry into \<open>s1\<close>, the
  entry \<open>-1\<close> included, and remembers the position of the first \<open>-1\<close>.\<close>

fun reshape_scan :: "int list \<Rightarrow> int \<Rightarrow> int \<Rightarrow> int \<Rightarrow> failure + (int \<times> int)" where
  "reshape_scan [] i s1 negIndex = Inr (s1, negIndex)"
| "reshape_scan (x # xs) i s1 negIndex =
     (if x = - 1
      then (if negIndex = - 1 then reshape_scan xs (i + 1) (s1 * x) i
            else Inl (Err ''Unable to infer undetermined dimension'' []))
      else reshape_scan xs (i + 1) (s1 * x) negIndex)"

definition reshape :: "MetaStack \<Rightarrow> failure + TensorShape" where
  "reshape variableMetas =
     (if length variableMetas \<noteq> 2
      then Inl (Err ''Expected two inputs shapes, got %zu.'' [int (length variableMetas)])
      else
        bindE (shapeT (variableMetas ! 0)) (\<lambda>t.
          let s0 = prod_list t in
          bindE (reshape_scan (intValue (variableMetas ! 1)) 0 1 (- 1)) (\<lambda>(s1, negIndex).
          bindE (modE s0 s1) (\<lambda>r.
            if \<not> (r = 0) then Inl (Err ''Reshape size is invalid for input size.'' [])
            else
              let shape = intValue (variableMetas ! 1) in
              if negIndex \<noteq> - 1
              then bindE (divE (- s0) s1) (\<lambda>q. Inr (shape[nat negIndex := q]))
              else Inr shape))))"

definition permute :: "MetaStack \<Rightarrow> failure + TensorShape" where
  "permute variableMetas =
     (if length variableMetas \<noteq> 2
      then Inl (Err ''Expected two inputs shapes, got %zu.'' [int (length variableMetas)])
      else
        bindE (shapeT (variableMetas ! 0)) (\<lambda>t.
          let inDims = int (length t) in
          if \<not> (inDims = int (length (intValue (variableMetas ! 1))))
          then Inl (Err ''Shuffle for permute must has the same number of dimensions as the input tensor.'' [])
          else
            mapE (\<lambda>d.
                    if \<not> (d \<ge> 0)
                    then Inl (Err ''Negative shuffle dimensions not supported by Glow yet.'' [])
                    else if \<not> (d < inDims)
                    then Inl (Err ''All shuffle dimensions must be less than the rank of the input.'' [])
                    else Inr (t ! nat d))
                 (intValue (variableMetas ! 1))))"

definition listConstruct :: "MetaStack \<Rightarrow> failure + TensorListShape" where
  "listConstruct variableMetas =
     (if \<not> (1 \<le> length variableMetas)
      then Inl (Err ''Expected at least 1 inputs, got %zu.'' [int (length variableMetas)])
      else if length (intValue (variableMetas ! 0)) = 1
      then
        bindE (mapE (\<lambda>ele.
                       if \<not> (length (intValue ele) = 1)
                       then Inl (Err ''Expected int type input in listConstruct.'' [])
                       else Inr (intValue ele ! 0))
                    variableMetas) (\<lambda>vals. Inr [vals])
      else mapE shapeT variableMetas)"

definition fusedStack :: "MetaStack \<Rightarrow> int \<Rightarrow> failure + TensorShape" where
  "fusedStack variableMetas dim0 =
     (if \<not> (1 \<le> length variableMetas)
      then Inl (Err ''Expected at least 1 inputs, got %zu.'' [int (length variableMetas)])
      else
        bindE (shapeT (variableMetas ! 0)) (\<lambda>shape.
          if length variableMetas = 1 then Inr shape
          else
            bindE (maybe_wrap_dim dim0 (int (length shape) + 1)) (\<lambda>wdim.
            bindE (mapE (\<lambda>eleShape.
                           bindE (shapeT eleShape) (\<lambda>s.
                             if \<not> (s = shape) then Inl (Err ''All inputs must have same shape'' [])
                             else Inr ()))
                        variableMetas) (\<lambda>_.
              Inr (take (nat wdim) shape @ [int (length variableMetas)] @ drop (nat wdim) shape)))))"

text \<open>The embedding-bag family. The member \<^verbatim>\<open>hasEndOffset_\<close> is declared in the header, which
  is not under src/: it is a parameter here.\<close>

definition embeddingBag :: "bool \<Rightarrow> MetaStack \<Rightarrow> failure + TensorShape" where
  "embeddingBag hasEndOffset variableMetas =
     (if length variableMetas \<noteq> 8
      then Inl (Err ''Expected 8 inputs, got %zu.'' [int (length variableMetas)])
      else
        bindE (shapeT (variableMetas ! 0)) (\<lambda>t0.
        bindE (shapeT (variableMetas ! 1)) (\<lambda>t1.
        bindE (shapeT (variableMetas ! 2)) (\<lambda>t2.
          if length t1 = 1
          then (if \<not> (length t2 = 1)
                then Inl (Err ''Expected 1D offset, got %zu.'' [int (length t2)])
                else bindE (idx t2 0) (\<lambda>a. bindE (idx t0 1) (\<lambda>b.
                       Inr [a - (if hasEndOffset then 1 else 0), b])))
          else if length t1 = 2
          then bindE (idx t1 0) (\<lambda>a. bindE (idx t0 1) (\<lambda>b. Inr [a, b]))
          else Inl (Err ''Only support 1D and 2D Input in Embedding bag.'' [])))))"

definition embeddingBagByteRowwiseOffsets :: "bool \<Rightarrow> MetaStack \<Rightarrow> failure + TensorShape" where
  "embeddingBagByteRowwiseOffsets hasEndOffset variableMetas =
     (if length variableMetas \<noteq> 8
      then Inl (Err ''Expected 8 inputs, got %zu.'' [int (length variableMetas)])
      else
        bindE (shapeT (variableMetas ! 0)) (\<lambda>t0.
        bindE (shapeT (variableMetas ! 2)) (\<lambda>t2.
        bindE (idx t2 0) (\<lambda>a.
        bindE (idx t0 1) (\<lambda>b.
          Inr [a - (if hasEndOffset then 1 else 0), b - 8])))))"

definition embeddingBag4BitRowwiseOffsets :: "bool \<Rightarrow> MetaStack \<Rightarrow> failure + TensorShape" where
  "embeddingBag4BitRowwiseOffsets hasEndOffset variableMetas =
     (if length variableMetas \<noteq> 9
      then Inl (Err ''Expected 9 inputs, got %zu.'' [int (length variableMetas)])
      else
        bindE (shapeT (variableMetas ! 0)) (\<lambda>weightShape.
        bindE (shapeT (variableMetas ! 2)) (\<lambda>offsetsShape.
        bindE (idx offsetsShape 0) (\<lambda>a.
        bindE (idx weightShape 1) (\<lambda>b.
          Inr [a - (if hasEndOffset then 1 else 0), (b - 4) * 2])))))"

definition stack :: "MetaStack \<Rightarrow> failure + TensorShape" where
  "stack variableMetas =
     (if length variableMetas \<noteq> 2
      then Inl (Err ''Expected 2 input, got %zu.'' [int (length variableMetas)])
      else
        bindE (shapeL (variableMetas ! 0)) (\<lambda>shapes.
        bindE (idx shapes 0) (\<lambda>shape.
        bindE (idx (intValue (variableMetas ! 1)) 0) (\<lambda>dim0.
        bindE (maybe_wrap_dim dim0 (int (length shape))) (\<lambda>wdim.
          if \<not> list_all (\<lambda>s. shape = s) (tl shapes)
          then Inl (Err ''All tensors need to be of the same shape.'' [])
          else Inr (take (nat wdim) shape @ [int (length shapes)] @ drop (nat wdim) shape))))))"

definition listUnpack :: "MetaStack \<Rightarrow> failure + TensorShape list" where
  "listUnpack variableMetas =
     (if length variableMetas \<noteq> 1
      then Inl (Err ''Expected 1 input, got %zu.'' [int (length variableMetas)])
      else shapeL (variableMetas ! 0))"

subsection \<open>Graphs, nodes and example inputs\<close>

text \<open>The TorchScript graph is a collaborator of the engine (\<^verbatim>\<open>torch::jit::Graph\<close>): what the
  engine reads of it is modelled. A value has an identity and a declared type; a node has
  its kind by qualified name, inputs, outputs, the attributes the engine reads
  (\<^verbatim>\<open>value\<close> as integer or as tensor, \<^verbatim>\<open>dim\<close>, \<^verbatim>\<open>chunks\<close>) and possibly a subgraph. Reading an
  attribute that the node does not have, \<^verbatim>\<open>node->output()\<close> on a node without exactly one
  output, and \<^verbatim>\<open>torch::empty\<close> with a negative size raise a library exception.\<close>

datatype TypeKind =
    TensorType | FloatType | IntType | BoolType | NoneType | StringType
  | ListType TypeKind | OptionalType TypeKind | OtherType

datatype Value = Value (valueId: nat) (valueType: TypeKind)

record Attrs =
  attr_value_i :: "int option"
  attr_value_t :: "TensorShape option"
  attr_dim :: "int option"
  attr_chunks :: "int option"

datatype Graph = Graph (graphInputs: "Value list") (graphOutputs: "Value list") (graphNodes: "Node list")
  and Node = Node (nodeKind: string) (nodeInputs: "Value list") (nodeOutputs: "Value list")
                  (nodeAttrs: Attrs) (nodeSubgraph: "Graph option")

datatype IValue =
    IVTensor "int list" | IVBool bool | IVInt int | IVIntList "int list"
  | IVDouble | IVString string | IVNone | IVTensorList "int list list"

text \<open>\<^verbatim>\<open>type->isSubtypeOf(X::get())\<close> for the five types the engine tests against (float, int,
  bool, none, tensor): among the kinds modelled, only the type itself is a subtype.\<close>

definition isSubtypeOf :: "TypeKind \<Rightarrow> TypeKind \<Rightarrow> bool" where
  "isSubtypeOf a b = (a = b)"

definition attrOf :: "'a option \<Rightarrow> failure + 'a" where
  "attrOf a = (case a of None \<Rightarrow> Inl (Fault LibraryException) | Some v \<Rightarrow> Inr v)"

definition node_output :: "Node \<Rightarrow> failure + Value" where
  "node_output node = (case nodeOutputs node of [v] \<Rightarrow> Inr v | _ \<Rightarrow> Inl (Fault LibraryException))"

subsection \<open>The value map\<close>

text \<open>\<^verbatim>\<open>shapeMap_\<close> is an \<^verbatim>\<open>unordered_map\<close>: \<^verbatim>\<open>shapeMap_[v]\<close> inserts a default record when the
  key is absent, \<^verbatim>\<open>emplace_back\<close> appends to the record's shape entries.\<close>

type_synonym ShapeMap = "Value \<rightharpoonup> VariableMeta"

definition atKey :: "ShapeMap \<Rightarrow> Value \<Rightarrow> VariableMeta" where
  "atKey m v = (case m v of None \<Rightarrow> emptyMeta | Some r \<Rightarrow> r)"

definition emplaceShape :: "ShapeMap \<Rightarrow> Value \<Rightarrow> ElemShape \<Rightarrow> ShapeMap" where
  "emplaceShape m v s = m(v \<mapsto> (atKey m v)\<lparr>listOfShape := listOfShape (atKey m v) @ [s]\<rparr>)"

definition setIntValue :: "ShapeMap \<Rightarrow> Value \<Rightarrow> int list \<Rightarrow> ShapeMap" where
  "setIntValue m v iv = m(v \<mapsto> (atKey m v)\<lparr>intValue := iv\<rparr>)"

definition findChecked :: "ShapeMap \<Rightarrow> Value \<Rightarrow> failure + VariableMeta" where
  "findChecked m v = (case m v of None \<Rightarrow> Inl (Fault CheckFailed) | Some r \<Rightarrow> Inr r)"

definition getNodeInputShape :: "Node \<Rightarrow> ShapeMap \<Rightarrow> failure + MetaStack" where
  "getNodeInputShape node m = mapE (findChecked m) (nodeInputs node)"

subsection \<open>Constant nodes and the dispatcher\<close>

definition primConstant :: "Node \<Rightarrow> failure + TensorShape" where
  "primConstant node =
     bindE (node_output node) (\<lambda>out.
       let ty = valueType out in
       if isSubtypeOf ty FloatType then Inr [1]
       else if isSubtypeOf ty IntType
       then bindE (attrOf (attr_value_i (nodeAttrs node))) (\<lambda>v. Inr [v])
       else if isSubtypeOf ty BoolType
       then bindE (attrOf (attr_value_i (nodeAttrs node))) (\<lambda>v. Inr [v])
       else if isSubtypeOf ty NoneType then Inr []
       else if isSubtypeOf ty TensorType
       then attrOf (attr_value_t (nodeAttrs node))
       else Inr [])"

definition single :: "failure + TensorShape \<Rightarrow> failure + TensorShape list" where
  "single r = bindE r (\<lambda>s. Inr [s])"

text \<open>The first half of \<^verbatim>\<open>shapeOnNode\<close>: the chain of string tests, then the switch on the
  kind, give \<^verbatim>\<open>outputShapesOrValues\<close>.\<close>

definition dispatchOp :: "bool \<Rightarrow> Node \<Rightarrow> MetaStack \<Rightarrow> failure + TensorShape list" where
  "dispatchOp hasEndOffset node inputMetas =
     (let symbol = nodeKind node in
      if symbol = ''glow::fused_stack''
      then bindE (attrOf (attr_dim (nodeAttrs node))) (\<lambda>d. single (fusedStack inputMetas d))
      else if symbol = ''fb::embedding_bag_byte_rowwise_offsets'' \<or>
              symbol = ''quantized::embedding_bag_byte_rowwise_offsets''
      then single (embeddingBagByteRowwiseOffsets hasEndOffset inputMetas)
      else if symbol = ''quantized::embedding_bag_4bit_rowwise_offsets''
      then single (embeddingBag4BitRowwiseOffsets hasEndOffset inputMetas)
      else if symbol = ''prim::Constant'' then single (primConstant node)
      else if symbol = ''aten::tanh'' \<or> symbol = ''aten::relu'' \<or> symbol = ''aten::sigmoid''
      then (if \<not> (length inputMetas = 1)
            then Inl (Err ''Expected 1 input shape for operators.'' [])
            else single (shapeT (inputMetas ! 0)))
      else if symbol = ''aten::sub'' \<or> symbol = ''aten::pow'' \<or> symbol = ''aten::mul'' \<or>
              symbol = ''aten::add''
      then single (binaryOp inputMetas)
      else if symbol = ''aten::mm'' then single (mm inputMetas)
      else if symbol = ''aten::addmm'' then single (addmm inputMetas)
      else if symbol = ''aten::bmm'' then single (bmm inputMetas)
      else if symbol = ''aten::t'' then single (t_op inputMetas)
      else if symbol = ''aten::transpose'' then single (transpose_op inputMetas)
      else if symbol = ''aten::flatten'' then single (flatten inputMetas)
      else if symbol = ''prim::FusedConcat''
      then bindE (attrOf (attr_dim (nodeAttrs node))) (\<lambda>d. single (fusedConcat inputMetas d))
      else if symbol = ''prim::ConstantChunk''
      then bindE (attrOf (attr_chunks (nodeAttrs node))) (\<lambda>chunks.
           bindE (attrOf (attr_dim (nodeAttrs node))) (\<lambda>d. constantChunk inputMetas chunks d))
      else if symbol = ''aten::chunk'' then chunk inputMetas
      else if symbol = ''prim::ListConstruct'' then listConstruct inputMetas
      else if symbol = ''aten::slice'' then single (slice inputMetas)
      else if symbol = ''aten::reshape'' then single (reshape inputMetas)
      else if symbol = ''aten::cat'' then single (cat inputMetas)
      else if symbol = ''aten::permute'' then single (permute inputMetas)
      else if symbol = ''aten::embedding_bag'' then single (embeddingBag hasEndOffset inputMetas)
      else if symbol = ''aten::stack'' then single (stack inputMetas)
      else if symbol = ''prim::ListUnpack'' then listUnpack inputMetas
      else Inl (Err (''Node's operator '' @ symbol @ '' is not supported'') []))"

text \<open>The second half of \<^verbatim>\<open>shapeOnNode\<close>: the results are put into the map.\<close>

fun storeEach :: "Value list \<Rightarrow> TensorShape list \<Rightarrow> nat \<Rightarrow> ShapeMap \<Rightarrow> failure + ShapeMap" where
  "storeEach [] outs i m = Inr m"
| "storeEach (v # vs) outs i m =
     (case idx outs (int i) of
        Inl e \<Rightarrow> Inl e
      | Inr s \<Rightarrow> storeEach vs outs (Suc i) (emplaceShape m v (TShape s)))"

definition storeOutputs :: "Node \<Rightarrow> TensorShape list \<Rightarrow> ShapeMap \<Rightarrow> failure + ShapeMap" where
  "storeOutputs node outs m =
     (let kind = nodeKind node in
      if kind = ''prim::Constant''
      then bindE (node_output node) (\<lambda>out.
           bindE (idx outs 0) (\<lambda>s.
             if isSubtypeOf (valueType out) TensorType
             then Inr (emplaceShape m out (TShape s))
             else Inr (setIntValue (emplaceShape m out (TShape [1])) out s)))
      else if kind = ''prim::ListConstruct''
      then bindE (node_output node) (\<lambda>out.
             case valueType out of
               ListType elem_type \<Rightarrow>
                 if elem_type = TensorType \<or>
                    (case elem_type of OptionalType e \<Rightarrow> e = TensorType | _ \<Rightarrow> False)
                 then Inr (emplaceShape m out (TListShape outs))
                 else bindE (idx outs 0) (\<lambda>s.
                        Inr (setIntValue (emplaceShape m out (TShape [int (length s), 1])) out s))
             | _ \<Rightarrow> Inl (Fault LibraryException))
      else if kind = ''aten::embedding_bag''
      then bindE (idx (nodeOutputs node) 0) (\<lambda>out.
           bindE (idx outs 0) (\<lambda>s. Inr (emplaceShape m out (TShape s))))
      else if kind = ''aten::chunk''
      then bindE (node_output node) (\<lambda>out. Inr (emplaceShape m out (TListShape outs)))
      else storeEach (nodeOutputs node) outs 0 m)"

definition shapeOnNode :: "bool \<Rightarrow> Node \<Rightarrow> ShapeMap \<Rightarrow> failure + ShapeMap" where
  "shapeOnNode hasEndOffset node m =
     bindE (getNodeInputShape node m) (\<lambda>inputMetas.
     bindE (dispatchOp hasEndOffset node inputMetas) (\<lambda>outs.
       storeOutputs node outs m))"

subsection \<open>Input seeding, the graph walker and the facade\<close>

text \<open>Modelled from the spec: \<^verbatim>\<open>IValue::toInt\<close> is a library accessor; a boolean or integer
  scalar gives its single integer value.\<close>

definition classify :: "IValue \<Rightarrow> failure + (TensorShape \<times> int list)" where
  "classify input =
     (case input of
        IVTensor sizes \<Rightarrow> Inr (sizes, [])
      | IVBool b \<Rightarrow> Inr ([1], [if b then 1 else 0])
      | IVInt n \<Rightarrow> Inr ([1], [n])
      | IVIntList l \<Rightarrow> Inr ([int (length l), 1], l)
      | _ \<Rightarrow> Inl (Err ''Input type doesn't support yet.'' []))"

fun getGraphInputShape_from ::
  "Value list \<Rightarrow> IValue list \<Rightarrow> nat \<Rightarrow> ShapeMap \<Rightarrow> failure + ShapeMap" where
  "getGraphInputShape_from gins [] i m = Inr m"
| "getGraphInputShape_from gins (input # rest) i m =
     (case idx gins (int i) of
        Inl e \<Rightarrow> Inl e
      | Inr gInName \<Rightarrow>
          (case classify input of
             Inl e \<Rightarrow> Inl e
           | Inr (shape, iv) \<Rightarrow>
               getGraphInputShape_from gins rest (Suc i)
                 (setIntValue (emplaceShape m gInName (TShape shape)) gInName iv)))"

definition getGraphInputShape :: "Graph \<Rightarrow> IValue list \<Rightarrow> ShapeMap \<Rightarrow> failure + ShapeMap" where
  "getGraphInputShape g ins m = getGraphInputShape_from (graphInputs g) ins 0 m"

definition materialize :: "ShapeMap \<Rightarrow> Value \<Rightarrow> failure + IValue" where
  "materialize m v =
     bindE (findChecked m v) (\<lambda>r.
     bindE (shapeT r) (\<lambda>s.
       if list_all (\<lambda>x. 0 \<le> x) s then Inr (IVTensor s) else Inl (Fault LibraryException)))"

fun copyOutputs :: "Value list \<Rightarrow> Value list \<Rightarrow> ShapeMap \<Rightarrow> ShapeMap" where
  "copyOutputs (out # outs) (sub # subs) m =
     copyOutputs outs subs ((m(sub \<mapsto> atKey m sub))(out \<mapsto> atKey m sub))"
| "copyOutputs outs subs m = m"

fun runRecursively :: "string \<Rightarrow> bool \<Rightarrow> Graph \<Rightarrow> IValue list \<Rightarrow> ShapeMap \<Rightarrow> failure + ShapeMap"
  and runNodes :: "string \<Rightarrow> bool \<Rightarrow> Node list \<Rightarrow> ShapeMap \<Rightarrow> failure + ShapeMap" where
  "runRecursively fsym he (Graph gins gouts nodes) ins m =
     (case getGraphInputShape (Graph gins gouts nodes) ins m of
        Inl e \<Rightarrow> Inl e
      | Inr m1 \<Rightarrow> runNodes fsym he nodes m1)"
| "runNodes fsym he [] m = Inr m"
| "runNodes fsym he (Node kind nins nouts attrs sg # rest) m =
     (case (case sg of
              Some subgraph \<Rightarrow>
                if \<not> prefix fsym kind then Inl (Fault CheckFailed)
                else (case mapE (materialize m) nins of
                        Inl e \<Rightarrow> Inl e
                      | Inr subgraphInputs \<Rightarrow>
                          (case runRecursively fsym he subgraph subgraphInputs m of
                             Inl e \<Rightarrow> Inl e
                           | Inr m2 \<Rightarrow>
                               if length (graphOutputs subgraph) \<noteq> length nouts
                               then Inl (Fault CheckFailed)
                               else Inr (copyOutputs nouts (graphOutputs subgraph) m2)))
            | None \<Rightarrow> shapeOnNode he (Node kind nins nouts attrs sg) m)
      of Inl e \<Rightarrow> Inl e
       | Inr m3 \<Rightarrow> runNodes fsym he rest m3)"

record Engine =
  eng_graph :: Graph
  eng_inputs :: "IValue list"
  eng_fusionNodeSymbol :: string
  eng_hasEndOffset :: bool
  eng_shapeMap :: ShapeMap
  eng_outputShape :: MetaStack

definition ShapeInferenceEngine :: "Graph \<Rightarrow> IValue list \<Rightarrow> string \<Rightarrow> bool \<Rightarrow> Engine" where
  "ShapeInferenceEngine g ins fsym he =
     \<lparr>eng_graph = g, eng_inputs = ins, eng_fusionNodeSymbol = fsym, eng_hasEndOffset = he,
      eng_shapeMap = Map.empty, eng_outputShape = []\<rparr>"

definition generateGraphOutputShape :: "Graph \<Rightarrow> ShapeMap \<Rightarrow> failure + MetaStack" where
  "generateGraphOutputShape g m = mapE (findChecked m) (graphOutputs g)"

definition run :: "Engine \<Rightarrow> failure + Engine" where
  "run eng =
     (if \<not> (length (eng_inputs eng) = length (graphInputs (eng_graph eng)))
      then Inl (Err ''Number of inputs mismatch between Graph and actual inputs'' [])
      else
        bindE (runRecursively (eng_fusionNodeSymbol eng) (eng_hasEndOffset eng)
                 (eng_graph eng) (eng_inputs eng) (eng_shapeMap eng)) (\<lambda>m.
        bindE (generateGraphOutputShape (eng_graph eng) m) (\<lambda>outs.
          Inr (eng\<lparr>eng_shapeMap := m, eng_outputShape := eng_outputShape eng @ outs\<rparr>))))"

subsection \<open>Records as the dispatcher stores them\<close>

text \<open>The record of a tensor value after the default packaging of \<^verbatim>\<open>shapeOnNode\<close> (one shape
  entry, no payload), and the record of an integer constant (placeholder shape \<open>[1]\<close>, the
  value as payload).\<close>

definition tensorMeta :: "TensorShape \<Rightarrow> VariableMeta" where
  "tensorMeta s = \<lparr>listOfShape = [TShape s], intValue = [], dtype = DefaultScalarType\<rparr>"

definition intMeta :: "int \<Rightarrow> VariableMeta" where
  "intMeta k = \<lparr>listOfShape = [TShape [1]], intValue = [k], dtype = DefaultScalarType\<rparr>"

definition intListMeta :: "int list \<Rightarrow> VariableMeta" where
  "intListMeta l = \<lparr>listOfShape = [TShape [int (length l), 1]], intValue = l, dtype = DefaultScalarType\<rparr>"

subsection \<open>The broadcast rule of the specification\<close>

text \<open>The trailing-alignment broadcast as the specification words it, for comparison with
  \<open>binaryOp\<close>; it is not taken from the source. On the reversed shapes, position by position
  from the trailing end: the other side's extent if this side is exhausted or is 1, else this
  side's extent if the other is exhausted or is 1, else the common extent, else a mismatch
  naming both extents.\<close>

fun broadcast_rev :: "int list \<Rightarrow> int list \<Rightarrow> (int \<times> int) + int list" where
  "broadcast_rev [] ys = Inr ys"
| "broadcast_rev (x # xs) [] = Inr (x # xs)"
| "broadcast_rev (x # xs) (y # ys) =
     (if x \<noteq> 1 \<and> y \<noteq> 1 \<and> x \<noteq> y then Inl (x, y)
      else (case broadcast_rev xs ys of
              Inl p \<Rightarrow> Inl p
            | Inr r \<Rightarrow> Inr ((if x = 1 then y else x) # r)))"

definition broadcast_spec :: "TensorShape \<Rightarrow> TensorShape \<Rightarrow> (int \<times> int) + TensorShape" where
  "broadcast_spec a b =
     (case broadcast_rev (rev a) (rev b) of Inl p \<Rightarrow> Inl p | Inr r \<Rightarrow> Inr (rev r))"

subsection \<open>Input seeding as the specification words it\<close>

text \<open>The record that the specification (section 4.2) gives for an example value, for
  comparison with \<open>getGraphInputShape\<close>; it is not taken from the source. A tensor gives one
  shape entry and no payload, a boolean or integer scalar gives shape \<open>[1]\<close> and its value, a
  list of integers gives shape \<open>[length, 1]\<close> and the list, any other kind gives no record.\<close>

definition seedSpec :: "IValue \<Rightarrow> VariableMeta option" where
  "seedSpec v =
     (case v of
        IVTensor dims \<Rightarrow> Some (tensorMeta dims)
      | IVBool b \<Rightarrow> Some (intMeta (if b then 1 else 0))
      | IVInt n \<Rightarrow> Some (intMeta n)
      | IVIntList l \<Rightarrow> Some (intListMeta l)
      | _ \<Rightarrow> None)"

subsection \<open>Example graphs\<close>

text \<open>A fusion node that wraps the subgraph \<open>x, y -> mm(x, y)\<close>, and a graph with one
  \<^verbatim>\<open>aten::chunk\<close> node whose chunk count and axis are graph inputs.\<close>

definition noAttrs :: Attrs where
  "noAttrs = \<lparr>attr_value_i = None, attr_value_t = None, attr_dim = None, attr_chunks = None\<rparr>"

definition mmSubgraph :: Graph where
  "mmSubgraph =
     Graph [Value 3 TensorType, Value 4 TensorType] [Value 5 TensorType]
       [Node ''aten::mm'' [Value 3 TensorType, Value 4 TensorType] [Value 5 TensorType] noAttrs None]"

definition fusionGraph :: Graph where
  "fusionGraph =
     Graph [Value 0 TensorType, Value 1 TensorType] [Value 2 TensorType]
       [Node ''glow::FusionGroup'' [Value 0 TensorType, Value 1 TensorType] [Value 2 TensorType]
          noAttrs (Some mmSubgraph)]"

definition chunkGraph :: Graph where
  "chunkGraph =
     Graph [Value 0 TensorType, Value 1 IntType, Value 2 IntType] [Value 3 (ListType TensorType)]
       [Node ''aten::chunk'' [Value 0 TensorType, Value 1 IntType, Value 2 IntType]
          [Value 3 (ListType TensorType)] noAttrs None]"

section \<open>Properties\<close>

declare binaryOp_loop.simps [simp del]

lemma bindE_Inr [simp]: "bindE (Inr x) f = f x"
  by (simp add: bindE_def)

lemma bindE_Inl [simp]: "bindE (Inl e) f = Inl e"
  by (simp add: bindE_def)

lemma idx_in_range [simp]: "0 \<le> i \<Longrightarrow> i < int (length xs) \<Longrightarrow> idx xs i = Inr (xs ! nat i)"
  by (simp add: idx_def)

lemma idx_negative [simp]: "i < 0 \<Longrightarrow> idx xs i = Inl (Fault IndexOutOfRange)"
  by (simp add: idx_def)

lemma idx_too_large [simp]: "int (length xs) \<le> i \<Longrightarrow> idx xs i = Inl (Fault IndexOutOfRange)"
  by (simp add: idx_def)

lemma shapeT_tensorMeta [simp]: "shapeT (tensorMeta s) = Inr s"
  by (simp add: shapeT_def tensorMeta_def)

lemma intValue_intMeta [simp]: "intValue (intMeta k) = [k]"
  by (simp add: intMeta_def)

lemma intValue_intListMeta [simp]: "intValue (intListMeta l) = l"
  by (simp add: intListMeta_def)

subsection \<open>Dynamic chunk and constant chunk\<close>

text \<open>
  Claim C8. For every record \<open>T\<close>, every chunk count \<open>k\<close> and axis \<open>d\<close>, the dynamic chunk
  function applied to \<open>[T, K, D]\<close>, where \<open>K\<close> and \<open>D\<close> carry the integer payloads \<open>k\<close> and \<open>d\<close>,
  returns what \<open>constantChunk [T]\<close> returns with chunks \<open>k\<close> and dim \<open>d\<close>: the same list of
  shapes, or the same failure.
\<close>

theorem chunk_eq_constantChunk:
  assumes "intValue K = [k]" and "intValue D = [d]"
  shows "chunk [T, K, D] = constantChunk [T] k d"
  using assms by (simp add: chunk_def constantChunk_def)

theorem chunk_eq_constantChunk_witness:
  "chunk [tensorMeta [5, 3], intMeta 2, intMeta 0] = constantChunk [tensorMeta [5, 3]] 2 0
   \<and> constantChunk [tensorMeta [5, 3]] 2 0 = Inr [[3, 3], [2, 3]]"
  using chunk_eq_constantChunk [of "intMeta 2" 2 "intMeta 0" 0 "tensorMeta [5, 3]"]
  by (simp add: constantChunk_def maybe_wrap_dim_def divE_def signed_divide_int_def upt_conv_Cons)

subsection \<open>Broadcasting binary operators\<close>

lemma nth_from_end:
  assumes "i < length t"
  shows "t ! nat (int (length t) + (- 1 - int i)) = rev t ! i"
proof -
  have "nat (int (length t) + (- 1 - int i)) = length t - Suc i"
    using assms by linarith
  then show ?thesis using assms by (simp add: rev_nth)
qed

lemma drop_update_same:
  assumes "m < length xs"
  shows "drop m (xs[m := v]) = v # drop (Suc m) xs"
  using assms Cons_nth_drop_Suc [of m "xs[m := v]"] by simp

lemma elem_both:
  assumes "i < length t0" "i < length t1"
  shows "binaryOp_elem t0 t1 i =
           (if rev t0 ! i = 1 then Inr (rev t1 ! i)
            else if rev t1 ! i = 1 then Inr (rev t0 ! i)
            else if rev t1 ! i \<noteq> rev t0 ! i then Inl (sizeMismatch (rev t0 ! i) (rev t1 ! i))
            else Inr (rev t1 ! i))"
  using assms by (simp add: binaryOp_elem_def Let_def nth_from_end)

lemma elem_left_exhausted:
  assumes "length t0 \<le> i" "i < length t1"
  shows "binaryOp_elem t0 t1 i = Inr (rev t1 ! i)"
  using assms by (simp add: binaryOp_elem_def Let_def nth_from_end)

lemma elem_right_exhausted:
  assumes "i < length t0" "length t1 \<le> i"
  shows "binaryOp_elem t0 t1 i =
           (if rev t0 ! i = 1 then Inl (Fault IndexOutOfRange) else Inr (rev t0 ! i))"
  using assms by (simp add: binaryOp_elem_def Let_def nth_from_end)

lemma loop_mapE:
  "length shape = n \<Longrightarrow> i \<le> n \<Longrightarrow>
   binaryOp_loop t0 t1 n i shape =
     (case mapE (binaryOp_elem t0 t1) [i ..< n] of
        Inl e \<Rightarrow> Inl e
      | Inr vs \<Rightarrow> Inr (rev vs @ drop (n - i) shape))"
proof (induction "n - i" arbitrary: i shape)
  case 0
  then show ?case by (subst binaryOp_loop.simps) simp
next
  case (Suc k)
  then have lt: "i < n" by simp
  have upt: "[i ..< n] = i # [Suc i ..< n]" using lt by (simp add: upt_conv_Cons)
  note unf = binaryOp_loop.simps [of t0 t1 n i shape]
  show ?case
  proof (cases "binaryOp_elem t0 t1 i")
    case (Inl e)
    then show ?thesis using lt upt by (simp add: unf)
  next
    case (Inr v)
    have k: "k = n - Suc i" using Suc.hyps(2) by simp
    have len: "length (shape[n - 1 - i := v]) = n" using Suc.prems by simp
    have ih: "binaryOp_loop t0 t1 n (Suc i) (shape[n - 1 - i := v]) =
              (case mapE (binaryOp_elem t0 t1) [Suc i ..< n] of
                 Inl e \<Rightarrow> Inl e
               | Inr vs \<Rightarrow> Inr (rev vs @ drop (n - Suc i) (shape[n - 1 - i := v])))"
      using Suc.hyps(1) [OF k len] lt by simp
    have dr: "drop (n - Suc i) (shape[n - 1 - i := v]) = v # drop (n - i) shape"
      using drop_update_same [of "n - Suc i" shape v] lt Suc.prems by (simp add: Suc_diff_Suc)
    show ?thesis
      using lt Inr ih dr upt by (simp add: unf split: sum.splits)
  qed
qed

lemma elems_mismatch:
  assumes "n = max (length t0) (length t1)"
  shows "broadcast_rev (drop i (rev t0)) (drop i (rev t1)) = Inl (a, b) \<Longrightarrow>
         mapE (binaryOp_elem t0 t1) [i ..< n] = Inl (sizeMismatch a b)"
proof (induction "n - i" arbitrary: i)
  case 0
  then have "length t0 \<le> i" "length t1 \<le> i" using assms by simp_all
  then show ?case using 0 by simp
next
  case (Suc k)
  have i0: "i < length t0"
  proof (rule ccontr)
    assume "\<not> i < length t0"
    then have "drop i (rev t0) = []" by simp
    then show False using Suc.prems by simp
  qed
  have i1: "i < length t1"
  proof (rule ccontr)
    assume "\<not> i < length t1"
    then have "drop i (rev t1) = []" by simp
    then show False using Suc.prems i0 by (cases "drop i (rev t0)") simp_all
  qed
  have lt: "i < n" using i0 assms by simp
  have upt: "[i ..< n] = i # [Suc i ..< n]" using lt by (simp add: upt_conv_Cons)
  have d0: "drop i (rev t0) = rev t0 ! i # drop (Suc i) (rev t0)"
    using i0 by (simp add: Cons_nth_drop_Suc)
  have d1: "drop i (rev t1) = rev t1 ! i # drop (Suc i) (rev t1)"
    using i1 by (simp add: Cons_nth_drop_Suc)
  have k: "k = n - Suc i" using Suc.hyps(2) by simp
  show ?case
  proof (cases "rev t0 ! i \<noteq> 1 \<and> rev t1 ! i \<noteq> 1 \<and> rev t0 ! i \<noteq> rev t1 ! i")
    case True
    then have "(a, b) = (rev t0 ! i, rev t1 ! i)"
      using Suc.prems d0 d1 by simp
    then show ?thesis using True upt elem_both [OF i0 i1] by auto
  next
    case False
    then have rest: "broadcast_rev (drop (Suc i) (rev t0)) (drop (Suc i) (rev t1)) = Inl (a, b)"
      using Suc.prems d0 d1 by (auto split: sum.splits)
    have ih: "mapE (binaryOp_elem t0 t1) [Suc i ..< n] = Inl (sizeMismatch a b)"
      using Suc.hyps(1) [OF k rest] .
    have "\<exists>v. binaryOp_elem t0 t1 i = Inr v"
      using False elem_both [OF i0 i1] by auto
    then show ?thesis using upt ih by auto
  qed
qed

lemma elems_broadcast:
  assumes "n = max (length t0) (length t1)"
    and H: "\<And>k. length t1 \<le> k \<Longrightarrow> k < length t0 \<Longrightarrow> rev t0 ! k \<noteq> 1"
  shows "broadcast_rev (drop i (rev t0)) (drop i (rev t1)) = Inr r \<Longrightarrow>
         mapE (binaryOp_elem t0 t1) [i ..< n] = Inr r"
proof (induction "n - i" arbitrary: i r)
  case 0
  then have "length t0 \<le> i" "length t1 \<le> i" using assms by simp_all
  then show ?case using 0 by simp
next
  case (Suc k)
  have lt: "i < n" using Suc.hyps(2) by simp
  have upt: "[i ..< n] = i # [Suc i ..< n]" using lt by (simp add: upt_conv_Cons)
  have k: "k = n - Suc i" using Suc.hyps(2) by simp
  consider (both) "i < length t0" "i < length t1"
    | (left) "length t0 \<le> i" "i < length t1"
    | (right) "i < length t0" "length t1 \<le> i"
    using lt assms(1) by linarith
  then show ?case
  proof cases
    case both
    have d0: "drop i (rev t0) = rev t0 ! i # drop (Suc i) (rev t0)"
      using both by (simp add: Cons_nth_drop_Suc)
    have d1: "drop i (rev t1) = rev t1 ! i # drop (Suc i) (rev t1)"
      using both by (simp add: Cons_nth_drop_Suc)
    from Suc.prems d0 d1 obtain r' where
      ok: "\<not> (rev t0 ! i \<noteq> 1 \<and> rev t1 ! i \<noteq> 1 \<and> rev t0 ! i \<noteq> rev t1 ! i)"
      and rest: "broadcast_rev (drop (Suc i) (rev t0)) (drop (Suc i) (rev t1)) = Inr r'"
      and r: "r = (if rev t0 ! i = 1 then rev t1 ! i else rev t0 ! i) # r'"
      by (auto split: sum.splits if_splits)
    have ih: "mapE (binaryOp_elem t0 t1) [Suc i ..< n] = Inr r'"
      using Suc.hyps(1) [OF k rest] .
    show ?thesis using upt ih r ok elem_both [OF both] by auto
  next
    case left
    have d0: "drop i (rev t0) = []" using left by simp
    have d0': "drop (Suc i) (rev t0) = []" using left by simp
    have d1: "drop i (rev t1) = rev t1 ! i # drop (Suc i) (rev t1)"
      using left by (simp add: Cons_nth_drop_Suc)
    have r: "r = rev t1 ! i # drop (Suc i) (rev t1)" using Suc.prems d0 d1 by simp
    have rest: "broadcast_rev (drop (Suc i) (rev t0)) (drop (Suc i) (rev t1)) = Inr (drop (Suc i) (rev t1))"
      using d0' by simp
    have ih: "mapE (binaryOp_elem t0 t1) [Suc i ..< n] = Inr (drop (Suc i) (rev t1))"
      using Suc.hyps(1) [OF k rest] .
    show ?thesis using upt ih r elem_left_exhausted [OF left] by simp
  next
    case right
    have d1: "drop i (rev t1) = []" using right by simp
    have d1': "drop (Suc i) (rev t1) = []" using right by simp
    have d0: "drop i (rev t0) = rev t0 ! i # drop (Suc i) (rev t0)"
      using right by (simp add: Cons_nth_drop_Suc)
    have r: "r = rev t0 ! i # drop (Suc i) (rev t0)" using Suc.prems d0 d1 by simp
    have rest: "broadcast_rev (drop (Suc i) (rev t0)) (drop (Suc i) (rev t1)) = Inr (drop (Suc i) (rev t0))"
      using d1' by (cases "drop (Suc i) (rev t0)") simp_all
    have ih: "mapE (binaryOp_elem t0 t1) [Suc i ..< n] = Inr (drop (Suc i) (rev t0))"
      using Suc.hyps(1) [OF k rest] .
    have ne: "rev t0 ! i \<noteq> 1" using H right by simp
    show ?thesis using upt ih r ne elem_right_exhausted [OF right] by simp
  qed
qed


lemma broadcast_rev_mismatch_iff:
  "(\<exists>p. broadcast_rev xs ys = Inl p) \<longleftrightarrow>
   (\<exists>i. i < length xs \<and> i < length ys \<and> xs ! i \<noteq> 1 \<and> ys ! i \<noteq> 1 \<and> xs ! i \<noteq> ys ! i)"
proof (induction xs ys rule: broadcast_rev.induct)
  case (1 ys)
  then show ?case by simp
next
  case (2 x xs)
  then show ?case by simp
next
  case (3 x xs y ys)
  show ?case
  proof (cases "x \<noteq> 1 \<and> y \<noteq> 1 \<and> x \<noteq> y")
    case True
    then show ?thesis by auto
  next
    case False
    have "(\<exists>p. broadcast_rev (x # xs) (y # ys) = Inl p) \<longleftrightarrow> (\<exists>p. broadcast_rev xs ys = Inl p)"
      using False by (auto split: sum.splits)
    also have "\<dots> \<longleftrightarrow> (\<exists>i. i < length xs \<and> i < length ys \<and> xs ! i \<noteq> 1 \<and> ys ! i \<noteq> 1 \<and> xs ! i \<noteq> ys ! i)"
      using 3 False by simp
    also have "\<dots> \<longleftrightarrow> (\<exists>i. i < length (x # xs) \<and> i < length (y # ys) \<and> (x # xs) ! i \<noteq> 1 \<and>
                        (y # ys) ! i \<noteq> 1 \<and> (x # xs) ! i \<noteq> (y # ys) ! i)"
    proof
      assume "\<exists>i. i < length xs \<and> i < length ys \<and> xs ! i \<noteq> 1 \<and> ys ! i \<noteq> 1 \<and> xs ! i \<noteq> ys ! i"
      then obtain i where "i < length xs \<and> i < length ys \<and> xs ! i \<noteq> 1 \<and> ys ! i \<noteq> 1 \<and> xs ! i \<noteq> ys ! i"
        by blast
      then have "Suc i < length (x # xs) \<and> Suc i < length (y # ys) \<and> (x # xs) ! Suc i \<noteq> 1 \<and>
                        (y # ys) ! Suc i \<noteq> 1 \<and> (x # xs) ! Suc i \<noteq> (y # ys) ! Suc i" by simp
      then show "\<exists>i. i < length (x # xs) \<and> i < length (y # ys) \<and> (x # xs) ! i \<noteq> 1 \<and>
                        (y # ys) ! i \<noteq> 1 \<and> (x # xs) ! i \<noteq> (y # ys) ! i" by blast
    next
      assume "\<exists>i. i < length (x # xs) \<and> i < length (y # ys) \<and> (x # xs) ! i \<noteq> 1 \<and>
                        (y # ys) ! i \<noteq> 1 \<and> (x # xs) ! i \<noteq> (y # ys) ! i"
      then obtain i where i: "i < length (x # xs) \<and> i < length (y # ys) \<and> (x # xs) ! i \<noteq> 1 \<and>
                        (y # ys) ! i \<noteq> 1 \<and> (x # xs) ! i \<noteq> (y # ys) ! i" by blast
      then obtain j where "i = Suc j" using False by (cases i) auto
      then show "\<exists>i. i < length xs \<and> i < length ys \<and> xs ! i \<noteq> 1 \<and> ys ! i \<noteq> 1 \<and> xs ! i \<noteq> ys ! i"
        using i by auto
    qed
    finally show ?thesis .
  qed
qed

lemma binaryOp_two:
  assumes "shapeT A = Inr t0" "shapeT B = Inr t1" "length t1 \<noteq> 1"
  shows "binaryOp [A, B] =
           (case mapE (binaryOp_elem t0 t1) [0 ..< max (length t0) (length t1)] of
              Inl e \<Rightarrow> Inl e
            | Inr vs \<Rightarrow> Inr (rev vs))"
  using assms loop_mapE [of "replicate (max (length t0) (length t1)) 0" "max (length t0) (length t1)" 0 t0 t1]
  by (simp add: binaryOp_def Let_def split: sum.splits)

text \<open>
  Claim C1, as amended. Let \<open>A\<close> and \<open>B\<close> be tensor records with shapes \<open>t0\<close> and \<open>t1\<close>.
  \<^item> If \<open>t1\<close> has rank 1, \<open>binaryOp [A, B]\<close> is \<open>t0\<close> unchanged, whatever the extent of \<open>t1\<close>.
  \<^item> If the rank of \<open>t1\<close> is not 1 and at some trailing position both extents differ and
    neither is 1 nor exhausted, \<open>binaryOp\<close> returns the size-mismatch failure naming the two
    extents at the first such position from the trailing end.
  \<^item> If the rank of \<open>t1\<close> is not 1, the shapes are broadcast-compatible, and \<open>t0\<close> has no
    extent 1 at a position beyond the rank of \<open>t1\<close>, \<open>binaryOp\<close> returns the standard
    trailing-dimension broadcast shape.
  \<^item> A third operand is ignored.
\<close>

theorem binaryOp_broadcast:
  assumes A: "shapeT A = Inr t0" and B: "shapeT B = Inr t1"
  shows "(length t1 = 1 \<longrightarrow> binaryOp [A, B] = Inr t0) \<and>
         (length t1 \<noteq> 1 \<longrightarrow>
            (\<forall>a b. broadcast_spec t0 t1 = Inl (a, b) \<longrightarrow>
               binaryOp [A, B] =
                 Inl (sizeMismatch a b)) \<and>
            (\<forall>s. broadcast_spec t0 t1 = Inr s \<and> 1 \<notin> set (take (length t0 - length t1) t0) \<longrightarrow>
               binaryOp [A, B] = Inr s)) \<and>
         binaryOp [A, B, C] = binaryOp [A, B]"
proof -
  have p1: "length t1 = 1 \<longrightarrow> binaryOp [A, B] = Inr t0"
    using A B by (simp add: binaryOp_def)
  have p2: "binaryOp [A, B] = Inl (sizeMismatch a b)"
    if "length t1 \<noteq> 1" "broadcast_spec t0 t1 = Inl (a, b)" for a b
  proof -
    have "broadcast_rev (drop 0 (rev t0)) (drop 0 (rev t1)) = Inl (a, b)"
      using that(2) by (simp add: broadcast_spec_def split: sum.splits)
    then have "mapE (binaryOp_elem t0 t1) [0 ..< max (length t0) (length t1)] = Inl (sizeMismatch a b)"
      by (rule elems_mismatch [OF refl])
    then show ?thesis using binaryOp_two [OF A B that(1)] by simp
  qed
  have p3: "binaryOp [A, B] = Inr s"
    if ne1: "length t1 \<noteq> 1" and sp: "broadcast_spec t0 t1 = Inr s"
      and no1: "1 \<notin> set (take (length t0 - length t1) t0)" for s
  proof -
    have H: "rev t0 ! k \<noteq> 1" if k: "length t1 \<le> k" "k < length t0" for k
    proof -
      have m: "length t0 - Suc k < length (take (length t0 - length t1) t0)"
        using k by simp
      have "rev t0 ! k = t0 ! (length t0 - Suc k)" using k by (simp add: rev_nth)
      also have "\<dots> = take (length t0 - length t1) t0 ! (length t0 - Suc k)"
        using k by simp
      finally have "rev t0 ! k \<in> set (take (length t0 - length t1) t0)"
        using nth_mem [OF m] by simp
      then show ?thesis using no1 by metis
    qed
    obtain r where r: "broadcast_rev (drop 0 (rev t0)) (drop 0 (rev t1)) = Inr r" and s: "s = rev r"
      using sp by (auto simp: broadcast_spec_def split: sum.splits)
    have "mapE (binaryOp_elem t0 t1) [0 ..< max (length t0) (length t1)] = Inr r"
      using elems_broadcast [OF refl H r] by simp
    then show ?thesis using binaryOp_two [OF A B ne1] s by simp
  qed
  have p4: "binaryOp [A, B, C] = binaryOp [A, B]"
    by (simp add: binaryOp_def)
  show ?thesis using p1 p2 p3 p4 by simp
qed

theorem binaryOp_broadcast_witness:
  "binaryOp [tensorMeta [2, 3], tensorMeta [7]] = Inr [2, 3] \<and>
   binaryOp [tensorMeta [2, 3], tensorMeta [4, 3]] =
     Inl (sizeMismatch 2 4) \<and>
   binaryOp [tensorMeta [5, 1, 3], tensorMeta [4, 1]] = Inr [5, 4, 3] \<and>
   binaryOp [tensorMeta [5, 1, 3], tensorMeta [4, 1], intMeta 1] = Inr [5, 4, 3]"
  using binaryOp_broadcast [of "tensorMeta [2, 3]" "[2, 3]" "tensorMeta [7]" "[7]" "intMeta 1"]
    binaryOp_broadcast [of "tensorMeta [2, 3]" "[2, 3]" "tensorMeta [4, 3]" "[4, 3]" "intMeta 1"]
    binaryOp_broadcast [of "tensorMeta [5, 1, 3]" "[5, 1, 3]" "tensorMeta [4, 1]" "[4, 1]" "intMeta 1"]
  by (simp add: broadcast_spec_def)

text \<open>Claim C1 as first stated fails where the second shape has rank 1 and an extent other
  than 1: the shapes \<open>[3, 1]\<close> and \<open>[4]\<close> broadcast to \<open>[3, 4]\<close>, and \<open>binaryOp\<close> returns
  \<open>[3, 1]\<close>.\<close>

theorem binaryOp_rank1_counterexample:
  "broadcast_spec [3, 1] [4] = Inr [3, 4] \<and> binaryOp [tensorMeta [3, 1], tensorMeta [4]] = Inr [3, 1]"
  by (simp add: broadcast_spec_def binaryOp_def)

text \<open>Where the first shape has an extent 1 beyond the rank of the second, the loop reads
  \<open>t1\<close> outside its bounds.\<close>

lemma binaryOp_leading_one_out_of_range:
  "broadcast_spec [1, 2, 3] [2, 3] = Inr [1, 2, 3] \<and>
   binaryOp [tensorMeta [1, 2, 3], tensorMeta [2, 3]] = Inl (Fault IndexOutOfRange)"
  by (simp add: broadcast_spec_def binaryOp_def binaryOp_elem_def binaryOp_loop.simps Let_def)

subsection \<open>Constant chunk\<close>

lemma sdiv_nonneg: "0 \<le> a \<Longrightarrow> 0 < b \<Longrightarrow> a sdiv b = a div (b::int)"
  by (simp add: signed_divide_int_def sgn_if)

lemma smod_nonneg: "0 \<le> a \<Longrightarrow> 0 < b \<Longrightarrow> a smod b = a mod (b::int)"
  by (simp add: signed_modulo_int_def sgn_if)

lemma chunk_size_bounds:
  fixes e k :: int
  assumes "0 < k"
  shows "k * ((e + k - 1) div k) < e + k" and "e \<le> k * ((e + k - 1) div k)"
proof -
  have eq: "k * ((e + k - 1) div k) + (e + k - 1) mod k = e + k - 1"
    by simp
  have lo: "0 \<le> (e + k - 1) mod k" and hi: "(e + k - 1) mod k < k"
    using assms by simp_all
  show "k * ((e + k - 1) div k) < e + k" using eq lo by linarith
  show "e \<le> k * ((e + k - 1) div k)" using eq hi by linarith
qed

lemma ceil_div:
  fixes e k :: int
  assumes "0 < k"
  shows "(e + k - 1) div k = \<lceil>real_of_int e / real_of_int k\<rceil>"
proof -
  define c where "c = (e + k - 1) div k"
  have b1: "k * c < e + k" and b2: "e \<le> k * c"
    using chunk_size_bounds [OF assms, of e] by (simp_all add: c_def)
  have kpos: "0 < real_of_int k" using assms by simp
  have "real_of_int (k * c) < real_of_int (e + k)" using b1 by linarith
  then have "(real_of_int c - 1) * real_of_int k < real_of_int e"
    by (simp add: algebra_simps)
  then have l: "real_of_int c - 1 < real_of_int e / real_of_int k"
    using kpos by (simp add: pos_less_divide_eq)
  have "real_of_int e \<le> real_of_int (k * c)" using b2 by linarith
  then have "real_of_int e \<le> real_of_int c * real_of_int k"
    by (simp add: algebra_simps)
  then have u: "real_of_int e / real_of_int k \<le> real_of_int c"
    using kpos by (simp add: pos_divide_le_eq)
  have "\<lceil>real_of_int e / real_of_int k\<rceil> = c"
    using l u by (rule ceiling_unique)
  then show ?thesis by (simp add: c_def)
qed

lemma last_chunk_le:
  fixes e k :: int
  assumes "0 < k"
  shows "e - ((e + k - 1) div k) * (k - 1) \<le> (e + k - 1) div k"
  using chunk_size_bounds(2) [OF assms, of e] by (simp add: algebra_simps)

lemma last_chunk_nonneg:
  fixes e k :: int
  assumes "0 < k" and "(k - 1) * (k - 1) \<le> e"
  shows "0 \<le> e - ((e + k - 1) div k) * (k - 1)"
proof -
  define c where "c = (e + k - 1) div k"
  have b1: "k * c < e + k"
    using chunk_size_bounds(1) [OF assms(1), of e] by (simp add: c_def)
  have "c * (k - 1) \<le> e"
  proof (cases "k - 1 \<le> c")
    case True
    have "c * (k - 1) = k * c - c" by (simp add: algebra_simps)
    then show ?thesis using b1 True by linarith
  next
    case False
    then have "c \<le> k - 1" by simp
    then have "c * (k - 1) \<le> (k - 1) * (k - 1)"
      using assms(1) by (intro mult_right_mono) simp_all
    then show ?thesis using assms(2) by linarith
  qed
  then show ?thesis by (simp add: c_def)
qed

text \<open>
  Claim C3, as amended. For a tensor record \<open>T\<close> with shape \<open>t\<close>, an axis \<open>d\<close> that wraps to
  \<open>w\<close>, extent \<open>e = t ! w \<ge> 0\<close> and a chunk count \<open>k \<ge> 1\<close>, \<open>constantChunk [T] k d\<close> returns
  exactly \<open>k\<close> shapes equal to \<open>t\<close> except at axis \<open>w\<close>: the first \<open>k - 1\<close> have extent
  \<open>c = ceil (e / k)\<close>, the last has \<open>e - c * (k - 1)\<close>. The \<open>k\<close> extents sum to \<open>e\<close>, the last
  is at most \<open>c\<close>, and it is not negative when \<open>(k - 1)\<^sup>2 \<le> e\<close>.
\<close>

theorem constantChunk_extents:
  assumes T: "shapeT T = Inr t"
    and d: "- int (length t) \<le> d" "d < int (length t)"
    and w: "w = nat (if d < 0 then d + int (length t) else d)"
    and e: "t ! w = e" "0 \<le> e"
    and k: "1 \<le> k"
    and c: "c = \<lceil>real_of_int e / real_of_int k\<rceil>"
  shows "constantChunk [T] k d = Inr (replicate (nat k - 1) (t[w := c]) @ [t[w := e - c * (k - 1)]])
       \<and> sum_list (map (\<lambda>s. s ! w) (replicate (nat k - 1) (t[w := c]) @ [t[w := e - c * (k - 1)]])) = e
       \<and> e - c * (k - 1) \<le> c
       \<and> ((k - 1) * (k - 1) \<le> e \<longrightarrow> 0 \<le> e - c * (k - 1))"
proof -
  have kpos: "0 < k" using k by simp
  have wlt: "w < length t" using d w by auto
  have wrap: "maybe_wrap_dim d (int (length t)) = Inr (int w)"
    using d w by (auto simp: maybe_wrap_dim_def Let_def)
  have cdiv: "(e + k - 1) sdiv k = c"
    using e(2) kpos by (simp add: sdiv_nonneg ceil_div c)
  have lst: "map (\<lambda>i. t[w := (if int i = k - 1 then e - c * (k - 1) else c)]) [0 ..< nat k]
             = replicate (nat k - 1) (t[w := c]) @ [t[w := e - c * (k - 1)]]"
    using kpos by (auto simp: list_eq_iff_nth_eq nth_append)
  have 1: "constantChunk [T] k d = Inr (replicate (nat k - 1) (t[w := c]) @ [t[w := e - c * (k - 1)]])"
  proof -
    have "constantChunk [T] k d =
          Inr (map (\<lambda>i. t[w := (if int i = k - 1 then e - ((e + k - 1) sdiv k) * (k - 1)
                                   else (e + k - 1) sdiv k)]) [0 ..< nat k])"
      using T wrap wlt e(1) kpos by (simp add: constantChunk_def divE_def Let_def)
    then show ?thesis unfolding cdiv lst .
  qed
  have 2: "sum_list (map (\<lambda>s. s ! w) (replicate (nat k - 1) (t[w := c]) @ [t[w := e - c * (k - 1)]])) = e"
    using wlt kpos by (simp add: sum_list_replicate algebra_simps)
  have ceq: "c = (e + k - 1) div k" using kpos by (simp add: ceil_div c)
  have 3: "e - c * (k - 1) \<le> c" using last_chunk_le [OF kpos, of e] by (simp add: ceq)
  have 4: "(k - 1) * (k - 1) \<le> e \<longrightarrow> 0 \<le> e - c * (k - 1)"
    using last_chunk_nonneg [OF kpos, of e] by (simp add: ceq)
  show ?thesis using 1 2 3 4 by blast
qed

theorem constantChunk_extents_witness:
  "constantChunk [tensorMeta [7, 3]] 3 (- 2) = Inr [[3, 3], [3, 3], [1, 3]]"
  using constantChunk_extents [of "tensorMeta [7, 3]" "[7, 3]" "- 2" 0 7 3 3]
  by (simp add: eval_nat_numeral)

text \<open>Claim C3 as first stated says that the last extent is never negative. It can be:
  5 elements in 4 chunks give \<open>c = 2\<close> and a last extent of \<open>5 - 2 * 3 = - 1\<close>.\<close>

theorem constantChunk_negative_counterexample:
  "constantChunk [tensorMeta [5]] 4 0 = Inr [[2], [2], [2], [- 1]]"
  by (simp add: constantChunk_def maybe_wrap_dim_def divE_def signed_divide_int_def upt_conv_Cons)

subsection \<open>Two-axis transpose\<close>

lemma maybe_wrap_dim_valid:
  assumes "- n \<le> d" "d < n"
  shows "maybe_wrap_dim d n = Inr (if d < 0 then d + n else d)"
  using assms by (simp add: maybe_wrap_dim_def Let_def)

lemma swap_twice:
  assumes "i < length s" "j < length s"
  shows "(s[i := s ! j, j := s ! i])[i := (s[i := s ! j, j := s ! i]) ! j,
                                     j := (s[i := s ! j, j := s ! i]) ! i] = s"
  using assms by (auto simp: list_eq_iff_nth_eq nth_list_update)

text \<open>
  Claim C9. For a tensor record \<open>A\<close> of shape \<open>s\<close> and axes \<open>d0\<close>, \<open>d1\<close> within \<open>[-rank, rank)\<close>,
  which wrap to \<open>i\<close> and \<open>j\<close>, the two-axis transpose returns \<open>s\<close> with the extents at \<open>i\<close> and
  \<open>j\<close> swapped, and the transpose of any record of that shape with the same axes returns
  \<open>s\<close> again.
\<close>

theorem transpose_involution:
  assumes A: "shapeT A = Inr s" and D0: "intValue D0 = [d0]" and D1: "intValue D1 = [d1]"
    and r0: "- int (length s) \<le> d0" "d0 < int (length s)"
    and r1: "- int (length s) \<le> d1" "d1 < int (length s)"
    and i: "i = nat (if d0 < 0 then d0 + int (length s) else d0)"
    and j: "j = nat (if d1 < 0 then d1 + int (length s) else d1)"
  shows "transpose_op [A, D0, D1] = Inr (s[i := s ! j, j := s ! i]) \<and>
         (\<forall>A'. shapeT A' = Inr (s[i := s ! j, j := s ! i]) \<longrightarrow>
                transpose_op [A', D0, D1] = Inr s)"
proof -
  have ij: "i < length s" "j < length s"
    using r0 r1 by (auto simp: i j)
  define s' where "s' = s[i := s ! j, j := s ! i]"
  have len: "length s' = length s" by (simp add: s'_def)
  have step: "transpose_op [B, D0, D1] = Inr (u[i := u ! j, j := u ! i])"
    if "shapeT B = Inr u" "length u = length s" for B u
    using that D0 D1 r0 r1 ij
    by (auto simp: transpose_op_def maybe_wrap_dim_valid Let_def i j)
  have fwd: "transpose_op [A, D0, D1] = Inr s'"
    using step [of A s] A by (simp add: s'_def)
  have bwd: "transpose_op [A', D0, D1] = Inr s" if "shapeT A' = Inr s'" for A'
    using step [of A' s'] that len swap_twice [OF ij] by (simp add: s'_def)
  show ?thesis using fwd bwd by (simp add: s'_def)
qed

theorem transpose_involution_witness:
  "transpose_op [tensorMeta [2, 3, 4], intMeta (- 1), intMeta 0] = Inr [4, 3, 2] \<and>
   transpose_op [tensorMeta [4, 3, 2], intMeta (- 1), intMeta 0] = Inr [2, 3, 4]"
  using transpose_involution [of "tensorMeta [2, 3, 4]" "[2, 3, 4]" "intMeta (- 1)" "- 1"
      "intMeta 0" 0 2 0]
  by simp

subsection \<open>Constant nodes of another type\<close>

lemma mapE_findChecked:
  "set vs \<subseteq> dom m \<Longrightarrow> \<exists>ms. mapE (findChecked m) vs = Inr ms"
  by (induction vs) (auto simp: findChecked_def)

text \<open>
  Claim C10. For a constant node whose inputs (if any) are resolved and whose single output
  has a declared type that is none of float, int, bool, None or tensor, \<open>primConstant\<close>
  succeeds with the empty shape, and \<open>shapeOnNode\<close> appends the placeholder shape \<open>[1]\<close> to
  the output's record and sets its integer payload to the empty list; for an output not yet
  in the map the record is exactly placeholder \<open>[1]\<close> with an empty payload.
\<close>

theorem primConstant_other_type:
  assumes kind: "nodeKind node = ''prim::Constant''"
    and ins: "set (nodeInputs node) \<subseteq> dom m"
    and outs: "nodeOutputs node = [out]"
    and ty: "valueType out \<notin> {FloatType, IntType, BoolType, NoneType, TensorType}"
  shows "primConstant node = Inr [] \<and>
         shapeOnNode he node m =
           Inr (m(out \<mapsto> (atKey m out)\<lparr>listOfShape := listOfShape (atKey m out) @ [TShape [1]],
                                        intValue := []\<rparr>)) \<and>
         (m out = None \<longrightarrow>
            shapeOnNode he node m =
              Inr (m(out \<mapsto> \<lparr>listOfShape = [TShape [1]], intValue = [], dtype = DefaultScalarType\<rparr>)))"
proof -
  have pc: "primConstant node = Inr []"
    using outs ty by (simp add: primConstant_def node_output_def isSubtypeOf_def)
  obtain ms where ms: "getNodeInputShape node m = Inr ms"
    using mapE_findChecked [OF ins] by (auto simp: getNodeInputShape_def)
  have disp: "dispatchOp he node ms = Inr [[]]"
    using kind pc by (simp add: dispatchOp_def single_def)
  have store: "storeOutputs node [[]] m =
      Inr (m(out \<mapsto> (atKey m out)\<lparr>listOfShape := listOfShape (atKey m out) @ [TShape [1]],
                                   intValue := []\<rparr>))"
    using kind outs ty
    by (simp add: storeOutputs_def node_output_def isSubtypeOf_def emplaceShape_def
        setIntValue_def atKey_def)
  have son: "shapeOnNode he node m =
      Inr (m(out \<mapsto> (atKey m out)\<lparr>listOfShape := listOfShape (atKey m out) @ [TShape [1]],
                                   intValue := []\<rparr>))"
    using ms disp store by (simp add: shapeOnNode_def)
  have "m out = None \<Longrightarrow> (atKey m out)\<lparr>listOfShape := listOfShape (atKey m out) @ [TShape [1]],
                                   intValue := []\<rparr> = \<lparr>listOfShape = [TShape [1]], intValue = [], dtype = DefaultScalarType\<rparr>"
    by (simp add: atKey_def emptyMeta_def)
  then show ?thesis using pc son by simp
qed

theorem primConstant_other_type_witness:
  "primConstant (Node ''prim::Constant'' [] [Value 7 StringType]
       \<lparr>attr_value_i = None, attr_value_t = None, attr_dim = None, attr_chunks = None\<rparr> None) = Inr [] \<and>
   shapeOnNode True (Node ''prim::Constant'' [] [Value 7 StringType]
       \<lparr>attr_value_i = None, attr_value_t = None, attr_dim = None, attr_chunks = None\<rparr> None) Map.empty
    = Inr [Value 7 StringType \<mapsto> \<lparr>listOfShape = [TShape [1]], intValue = [], dtype = DefaultScalarType\<rparr>]"
  using primConstant_other_type [of "Node ''prim::Constant'' [] [Value 7 StringType]
       \<lparr>attr_value_i = None, attr_value_t = None, attr_dim = None, attr_chunks = None\<rparr> None"
       Map.empty "Value 7 StringType" True]
  by (simp add: atKey_def emptyMeta_def)

subsection \<open>Slice\<close>

lemma ceil_sdiv:
  fixes a b :: int
  assumes "0 < a" "0 < b"
  shows "(if a smod b \<noteq> 0 then a sdiv b + 1 else a sdiv b) = \<lceil>real_of_int a / real_of_int b\<rceil>"
proof -
  have "\<lceil>real_of_int a / real_of_int b\<rceil> = - (- a div b)"
    by (rule ceiling_divide_eq_div)
  also have "\<dots> = (if a mod b = 0 then a div b else a div b + 1)"
    using assms by (simp add: zdiv_zminus1_eq_if)
  finally show ?thesis using assms by (simp add: sdiv_nonneg smod_nonneg)
qed

lemma slice_in_range:
  assumes T: "shapeT T = Inr t"
    and D: "intValue D = [d]" and S: "intValue S = [startv]" and E: "intValue E = [endv]"
    and P: "intValue P = [step]"
    and d: "0 \<le> d" "d < int (length t)"
    and e: "e = t ! nat d"
    and step: "1 \<le> step"
  shows "slice [T, D, S, E, P] =
           Inr (t[nat d :=
             (if startv \<ge> e \<or> endv \<le> - e then 0
              else
                let s1 = (if startv \<le> - e then 0 else if startv < 0 then startv + e else startv);
                    e1 = (if endv > e then e else if endv < 0 then endv + e else endv)
                in if s1 \<ge> e1 then 0 else \<lceil>real_of_int (e1 - s1) / real_of_int step\<rceil>)])"
proof -
  have chk: "list_all (\<lambda>i. length (intValue ([T, D, S, E, P] ! i)) = 1) [1 ..< 5]"
    using D S E P by (simp add: upt_conv_Cons)
  have q: "bindE (divE a step) (\<lambda>q. bindE (modE a step) (\<lambda>r. Inr (t[nat d := (if r \<noteq> 0 then q + 1 else q)])))
           = Inr (t[nat d := \<lceil>real_of_int a / real_of_int step\<rceil>])" if "0 < a" for a
    using that step ceil_sdiv [of a step] by (simp add: divE_def modE_def)
  show ?thesis
    using T D S E P d chk
    by (auto simp: slice_def Let_def e [symmetric] q)
qed

lemma slice_examples:
  "slice [tensorMeta [10], intMeta 0, intMeta 8, intMeta 20, intMeta 1] = Inr [2] \<and>
   slice [tensorMeta [10], intMeta 0, intMeta 12, intMeta 20, intMeta 1] = Inr [0]"
  using slice_in_range [of "tensorMeta [10]" "[10]" "intMeta 0" 0 "intMeta 8" 8 "intMeta 20" 20 "intMeta 1" 1 10]
   slice_in_range [of "tensorMeta [10]" "[10]" "intMeta 0" 0 "intMeta 12" 12 "intMeta 20" 20 "intMeta 1" 1 10]
  by simp

text \<open>
  Claim C2 says that the axis is wrapped before it is used. \<open>slice\<close> indexes the shape with the
  axis as given: for the shape \<open>[10]\<close> and the axis \<open>- 1\<close>, which wraps to 0, the C++ evaluates
  \<^verbatim>\<open>shape[-1]\<close>, a read outside the vector, where the claim gives the extent 2. For an axis
  in \<open>[0, rank)\<close> and a positive step the extent is the one the claim states
  (\<open>slice_in_range\<close>).
\<close>

theorem slice_negative_dim_unwrapped:
  "slice [tensorMeta [10], intMeta (- 1), intMeta 8, intMeta 20, intMeta 1]
     = Inl (Fault IndexOutOfRange)"
  by (simp add: slice_def upt_conv_Cons)

subsection \<open>Reshape\<close>

lemma smod_eq_0_iff_dvd:
  fixes a b :: int
  assumes "b \<noteq> 0"
  shows "a smod b = 0 \<longleftrightarrow> b dvd a"
proof -
  have "a smod b = 0 \<longleftrightarrow> \<bar>a\<bar> mod \<bar>b\<bar> = 0"
    by (auto simp: signed_modulo_int_def sgn_if)
  also have "\<dots> \<longleftrightarrow> \<bar>b\<bar> dvd \<bar>a\<bar>" by (simp add: dvd_eq_mod_eq_0)
  finally show ?thesis by simp
qed

lemma sdiv_exact:
  fixes a b :: int
  assumes "b dvd a"
  shows "a sdiv b = a div b"
  using assms by (simp add: signed_divide_int_eq_divide_int)

lemma reshape_scan_found:
  "neg \<noteq> - 1 \<Longrightarrow>
   reshape_scan xs i s1 neg =
     (if - 1 \<in> set xs then Inl (Err ''Unable to infer undetermined dimension'' [])
      else Inr (s1 * prod_list xs, neg))"
  by (induction xs arbitrary: i s1) (auto simp: algebra_simps)

lemma reshape_scan_fresh:
  "0 \<le> i \<Longrightarrow>
   reshape_scan xs i s1 (- 1) =
     (if 1 < count_list xs (- 1) then Inl (Err ''Unable to infer undetermined dimension'' [])
      else Inr (s1 * prod_list xs,
                if - 1 \<in> set xs then i + int (length (takeWhile (\<lambda>x. x \<noteq> - 1) xs)) else - 1))"
proof (induction xs arbitrary: i s1)
  case Nil
  then show ?case by simp
next
  case (Cons x xs)
  show ?case
  proof (cases "x = - 1")
    case True
    have i: "i \<noteq> - 1" using Cons.prems by simp
    have "count_list xs (- 1) = 0 \<longleftrightarrow> - 1 \<notin> set xs" by (rule count_list_0_iff)
    then have "0 < count_list xs (- 1) \<longleftrightarrow> - 1 \<in> set xs" by auto
    then have c: "1 < count_list (x # xs) (- 1) \<longleftrightarrow> - 1 \<in> set xs"
      using True by simp
    show ?thesis using True c by (simp add: reshape_scan_found [OF i] del: count_list.simps)
  next
    case False
    have "0 \<le> i + 1" using Cons.prems by simp
    then show ?thesis using False Cons.IH [of "i + 1" "s1 * x"] by (simp add: algebra_simps)
  qed
qed

lemma resolve_single:
  "count_list xs a = 1 \<Longrightarrow>
   xs[length (takeWhile (\<lambda>x. x \<noteq> a) xs) := q] = map (\<lambda>x. if x = a then q else x) xs"
proof (induction xs)
  case Nil
  then show ?case by simp
next
  case (Cons x xs)
  show ?case
  proof (cases "x = a")
    case True
    then have "count_list xs a = 0" using Cons.prems by simp
    then have "a \<notin> set xs" by (simp add: count_list_0_iff)
    then have "map (\<lambda>x. if x = a then q else x) xs = xs" by (induction xs) auto
    then show ?thesis using True by simp
  next
    case False
    then show ?thesis using Cons by simp
  qed
qed

lemma prod_resolved:
  fixes q :: int
  shows "count_list xs a = 1 \<Longrightarrow>
   prod_list (map (\<lambda>x. if x = a then q else x) xs) = q * prod_list (filter (\<lambda>x. x \<noteq> a) xs)"
proof (induction xs)
  case Nil
  then show ?case by simp
next
  case (Cons x xs)
  show ?case
  proof (cases "x = a")
    case True
    then have "count_list xs a = 0" using Cons.prems by simp
    then have n: "a \<notin> set xs" by (simp add: count_list_0_iff)
    then have 1: "map (\<lambda>x. if x = a then q else x) xs = xs" by (induction xs) auto
    have 2: "filter (\<lambda>x. x \<noteq> a) xs = xs" using n by (induction xs) auto
    show ?thesis using True 1 2 by simp
  next
    case False
    then show ?thesis using Cons by simp
  qed
qed

lemma prod_with_minus_ones:
  "prod_list xs = (- 1) ^ count_list xs (- 1) * prod_list (filter (\<lambda>x. x \<noteq> - 1) xs)" for xs :: "int list"
  by (induction xs) simp_all

lemma reshape_nonzero_target:
  assumes T: "shapeT T = Inr t" and S: "intValue S = target"
    and s0: "s0 = prod_list t"
    and P: "P = prod_list (filter (\<lambda>x. x \<noteq> - 1) target)"
  shows "(1 < count_list target (- 1) \<longrightarrow>
            reshape [T, S] = Inl (Err ''Unable to infer undetermined dimension'' [])) \<and>
         (0 \<notin> set target \<and> count_list target (- 1) \<le> 1 \<and> \<not> P dvd s0 \<longrightarrow>
            reshape [T, S] = Inl (Err ''Reshape size is invalid for input size.'' [])) \<and>
         (0 \<notin> set target \<and> count_list target (- 1) = 0 \<and> P dvd s0 \<longrightarrow>
            reshape [T, S] = Inr target) \<and>
         (0 \<notin> set target \<and> count_list target (- 1) = 1 \<and> P dvd s0 \<longrightarrow>
            reshape [T, S] = Inr (map (\<lambda>x. if x = - 1 then s0 div P else x) target) \<and>
            prod_list (map (\<lambda>x. if x = - 1 then s0 div P else x) target) = s0)"
proof -
  note scan = reshape_scan_fresh [of 0 target 1, simplified]
  have p1: "reshape [T, S] = Inl (Err ''Unable to infer undetermined dimension'' [])"
    if "1 < count_list target (- 1)"
    using T S that by (simp add: reshape_def scan)
  have nz: "prod_list target \<noteq> 0" if "0 \<notin> set target"
    using that by (simp add: prod_list_zero_iff)
  have p2: "reshape [T, S] = Inl (Err ''Reshape size is invalid for input size.'' [])"
    if z: "0 \<notin> set target" and c: "count_list target (- 1) \<le> 1" and nd: "\<not> P dvd s0"
  proof -
    have "count_list target (- 1) = 0 \<or> count_list target (- 1) = 1" using c by linarith
    then have "prod_list target = P \<or> prod_list target = - P"
      using prod_with_minus_ones [of target] by (auto simp: P)
    then have "\<not> prod_list target dvd s0" using nd by auto
    then have "s0 smod prod_list target \<noteq> 0"
      using smod_eq_0_iff_dvd [OF nz [OF z]] by simp
    then show ?thesis using T S c nz [OF z] by (simp add: reshape_def scan modE_def Let_def s0)
  qed
  have p3: "reshape [T, S] = Inr target"
    if z: "0 \<notin> set target" and c: "count_list target (- 1) = 0" and d: "P dvd s0"
  proof -
    have pt: "prod_list target = P" using prod_with_minus_ones [of target] c by (simp add: P)
    have "s0 smod prod_list target = 0"
      using smod_eq_0_iff_dvd [OF nz [OF z]] d pt by simp
    moreover have "- 1 \<notin> set target" using c by (simp add: count_list_0_iff)
    ultimately show ?thesis using T S c nz [OF z] by (simp add: reshape_def scan modE_def Let_def s0)
  qed
  have p4: "reshape [T, S] = Inr (map (\<lambda>x. if x = - 1 then s0 div P else x) target) \<and>
            prod_list (map (\<lambda>x. if x = - 1 then s0 div P else x) target) = s0"
    if z: "0 \<notin> set target" and c: "count_list target (- 1) = 1" and d: "P dvd s0"
  proof -
    have pt: "prod_list target = - P" using prod_with_minus_ones [of target] c by (simp add: P)
    have m0: "s0 smod prod_list target = 0"
      using smod_eq_0_iff_dvd [OF nz [OF z]] d pt by simp
    have mem: "- 1 \<in> set target" using c by (metis count_list_0_iff zero_neq_one)
    have q: "(- s0) sdiv prod_list target = s0 div P"
      using d by (simp add: pt sdiv_exact)
    have "reshape [T, S] = Inr (target[length (takeWhile (\<lambda>x. x \<noteq> - 1) target) := s0 div P])"
      using T S c nz [OF z] m0 mem q
      by (simp add: reshape_def scan modE_def divE_def Let_def s0 [symmetric])
    then have a: "reshape [T, S] = Inr (map (\<lambda>x. if x = - 1 then s0 div P else x) target)"
      by (simp add: resolve_single [OF c])
    have "prod_list (map (\<lambda>x. if x = - 1 then s0 div P else x) target) = (s0 div P) * P"
      using prod_resolved [OF c, of "s0 div P"] by (simp add: P)
    then have b: "prod_list (map (\<lambda>x. if x = - 1 then s0 div P else x) target) = s0"
      using d by simp
    show ?thesis using a b by simp
  qed
  show ?thesis using p1 p2 p3 p4 by blast
qed

text \<open>
  Claim C4 holds for every target without a zero extent (\<open>reshape_nonzero_target\<close>; the
  failure for two entries \<open>- 1\<close> needs no condition). With a zero extent in the target the
  product \<open>s1\<close> is 0 and \<^verbatim>\<open>s0 % s1\<close> divides by zero: \<open>reshape\<close> neither returns the target
  (shape \<open>[0, 3]\<close> to \<open>[3, 0]\<close>) nor the failure for an indivisible size (shape \<open>[2, 3]\<close> to \<open>[0]\<close>).
\<close>

theorem reshape_zero_target_division:
  "reshape [tensorMeta [0, 3], intListMeta [3, 0]] = Inl (Fault DivisionByZero) \<and>
   reshape [tensorMeta [2, 3], intListMeta [0]] = Inl (Fault DivisionByZero)"
  by (simp add: reshape_def modE_def)

subsection \<open>Nodes with a subgraph\<close>

lemma atKey_copy_step:
  "v \<noteq> out \<Longrightarrow> atKey ((m(sub \<mapsto> atKey m sub))(out \<mapsto> atKey m sub)) v = atKey m v"
  by (simp add: atKey_def)

lemma copyOutputs_atKey_frame:
  "v \<notin> set outs \<Longrightarrow> atKey (copyOutputs outs subs m) v = atKey m v"
proof (induction outs subs m rule: copyOutputs.induct)
  case (1 out outs sub subs m)
  have v: "v \<noteq> out" "v \<notin> set outs" using "1.prems" by auto
  have "atKey (copyOutputs outs subs ((m(sub \<mapsto> atKey m sub))(out \<mapsto> atKey m sub))) v
        = atKey ((m(sub \<mapsto> atKey m sub))(out \<mapsto> atKey m sub)) v"
    using "1.IH" [OF v(2)] .
  also have "\<dots> = atKey m v" using v(1) by (rule atKey_copy_step)
  finally show ?case by simp
qed simp_all

lemma copyOutputs_frame:
  "v \<notin> set outs \<Longrightarrow> v \<notin> set subs \<Longrightarrow> copyOutputs outs subs m v = m v"
  by (induction outs subs m rule: copyOutputs.induct) auto

lemma copyOutputs_nth:
  assumes "length outs = length subs" "distinct outs" "set outs \<inter> set subs = {}" "i < length outs"
  shows "copyOutputs outs subs m (outs ! i) = Some (atKey m (subs ! i))"
  using assms
proof (induction outs subs arbitrary: i m rule: list_induct2)
  case Nil
  then show ?case by simp
next
  case (Cons out outs sub subs)
  define m1 where "m1 = (m(sub \<mapsto> atKey m sub))(out \<mapsto> atKey m sub)"
  have d: "distinct outs" "set outs \<inter> set subs = {}" using Cons.prems by auto
  show ?case
  proof (cases i)
    case 0
    have "out \<notin> set outs" "out \<notin> set subs" using Cons.prems by auto
    then have "copyOutputs outs subs m1 out = m1 out" by (rule copyOutputs_frame)
    then show ?thesis using 0 by (simp add: m1_def)
  next
    case (Suc j)
    then have j: "j < length outs" using Cons.prems by simp
    have ne: "subs ! j \<noteq> out" using Cons.prems(2) j Cons.hyps by (metis Cons.prems(3) disjoint_iff list.set_intros(1) list.set_intros(2) nth_mem)
    have "copyOutputs (out # outs) (sub # subs) m ((out # outs) ! i) = copyOutputs outs subs m1 (outs ! j)"
      unfolding m1_def using Suc by simp
    also have "\<dots> = Some (atKey m1 (subs ! j))"
      using Cons.IH [OF d j] .
    also have "atKey m1 (subs ! j) = atKey m (subs ! j)"
      unfolding m1_def using ne by (rule atKey_copy_step)
    finally show ?thesis using Suc by simp
  qed
qed

text \<open>
  Claim C5. Let the walker visit a node with a subgraph, the fusion-symbol check pass, the
  outer inputs materialise, and the recursive walk of the subgraph succeed with map \<open>m2\<close>.
  If the subgraph's output count differs from the node's, the walk fails (the \<^verbatim>\<open>CHECK_EQ\<close>
  stops it). If the counts agree (the outer outputs being distinct values, none of them a
  subgraph output), the walk continues with a map \<open>m3\<close> in which every outer output holds the
  record of the subgraph output at the same position, and that subgraph output still has
  the record it had in \<open>m2\<close>.
\<close>

theorem subgraph_outputs_copied:
  assumes sg: "nodeSubgraph node = Some subgraph"
    and fusion: "prefix fsym (nodeKind node)"
    and ins: "mapE (materialize m) (nodeInputs node) = Inr subgraphInputs"
    and walk: "runRecursively fsym he subgraph subgraphInputs m = Inr m2"
  shows "(length (graphOutputs subgraph) \<noteq> length (nodeOutputs node) \<longrightarrow>
            runNodes fsym he (node # rest) m = Inl (Fault CheckFailed)) \<and>
         (length (graphOutputs subgraph) = length (nodeOutputs node) \<and>
          distinct (nodeOutputs node) \<and>
          set (nodeOutputs node) \<inter> set (graphOutputs subgraph) = {} \<longrightarrow>
            (\<exists>m3. runNodes fsym he (node # rest) m = runNodes fsym he rest m3 \<and>
                  (\<forall>i<length (nodeOutputs node).
                     m3 (nodeOutputs node ! i) = Some (atKey m2 (graphOutputs subgraph ! i)) \<and>
                     atKey m3 (graphOutputs subgraph ! i) = atKey m2 (graphOutputs subgraph ! i))))"
proof -
  obtain kind nins nouts attrs where node: "node = Node kind nins nouts attrs (Some subgraph)"
    using sg by (cases node) simp
  have p1: "length (graphOutputs subgraph) \<noteq> length (nodeOutputs node) \<longrightarrow>
            runNodes fsym he (node # rest) m = Inl (Fault CheckFailed)"
    using fusion ins walk by (simp add: node)
  have p2: "\<exists>m3. runNodes fsym he (node # rest) m = runNodes fsym he rest m3 \<and>
                  (\<forall>i<length (nodeOutputs node).
                     m3 (nodeOutputs node ! i) = Some (atKey m2 (graphOutputs subgraph ! i)) \<and>
                     atKey m3 (graphOutputs subgraph ! i) = atKey m2 (graphOutputs subgraph ! i))"
    if len: "length (graphOutputs subgraph) = length (nodeOutputs node)"
      and dist: "distinct (nodeOutputs node)"
      and disj: "set (nodeOutputs node) \<inter> set (graphOutputs subgraph) = {}"
  proof -
    define m3 where "m3 = copyOutputs nouts (graphOutputs subgraph) m2"
    have step: "runNodes fsym he (node # rest) m = runNodes fsym he rest m3"
      using fusion ins walk len by (simp add: node m3_def)
    have vals: "m3 (nodeOutputs node ! i) = Some (atKey m2 (graphOutputs subgraph ! i)) \<and>
                atKey m3 (graphOutputs subgraph ! i) = atKey m2 (graphOutputs subgraph ! i)"
      if i: "i < length (nodeOutputs node)" for i
    proof -
      have a: "m3 (nouts ! i) = Some (atKey m2 (graphOutputs subgraph ! i))"
        unfolding m3_def using len dist disj i by (intro copyOutputs_nth) (simp_all add: node)
      have "graphOutputs subgraph ! i \<in> set (graphOutputs subgraph)"
        using i len by simp
      then have "graphOutputs subgraph ! i \<notin> set nouts"
        using disj by (auto simp: node)
      then have b: "atKey m3 (graphOutputs subgraph ! i) = atKey m2 (graphOutputs subgraph ! i)"
        unfolding m3_def by (rule copyOutputs_atKey_frame)
      show ?thesis using a b by (simp add: node)
    qed
    show ?thesis using step vals by blast
  qed
  show ?thesis using p1 p2 by blast
qed

text \<open>The end-to-end example: the fusion node around \<open>mm\<close> with outer inputs of shapes
  \<open>[4, 5]\<close> and \<open>[5, 6]\<close> gives the outer output (value 2) the shape \<open>[4, 6]\<close>, the record of
  the inner output (value 5).\<close>

theorem subgraph_outputs_copied_witness:
  "run (ShapeInferenceEngine fusionGraph [IVTensor [4, 5], IVTensor [5, 6]] ''glow::FusionGroup'' True)
     = Inr \<lparr>eng_graph = fusionGraph, eng_inputs = [IVTensor [4, 5], IVTensor [5, 6]],
            eng_fusionNodeSymbol = ''glow::FusionGroup'', eng_hasEndOffset = True,
            eng_shapeMap =
              [Value 0 TensorType \<mapsto> tensorMeta [4, 5], Value 1 TensorType \<mapsto> tensorMeta [5, 6],
               Value 3 TensorType \<mapsto> tensorMeta [4, 5], Value 4 TensorType \<mapsto> tensorMeta [5, 6],
               Value 5 TensorType \<mapsto> tensorMeta [4, 6], Value 2 TensorType \<mapsto> tensorMeta [4, 6]],
            eng_outputShape = [tensorMeta [4, 6]]\<rparr>"
  using subgraph_outputs_copied [of
      "Node ''glow::FusionGroup'' [Value 0 TensorType, Value 1 TensorType] [Value 2 TensorType]
          noAttrs (Some mmSubgraph)"
      mmSubgraph "''glow::FusionGroup''"
      "[Value 0 TensorType \<mapsto> tensorMeta [4, 5], Value 1 TensorType \<mapsto> tensorMeta [5, 6]]"
      "[IVTensor [4, 5], IVTensor [5, 6]]" True
      "[Value 0 TensorType \<mapsto> tensorMeta [4, 5], Value 1 TensorType \<mapsto> tensorMeta [5, 6],
        Value 3 TensorType \<mapsto> tensorMeta [4, 5], Value 4 TensorType \<mapsto> tensorMeta [5, 6],
        Value 5 TensorType \<mapsto> tensorMeta [4, 6]]" "[]"]
  by (simp add: run_def ShapeInferenceEngine_def generateGraphOutputShape_def
      fusionGraph_def mmSubgraph_def materialize_def findChecked_def
      getGraphInputShape_def classify_def setIntValue_def emplaceShape_def atKey_def emptyMeta_def
      tensorMeta_def shapeOnNode_def getNodeInputShape_def dispatchOp_def mm_def single_def
      storeOutputs_def noAttrs_def shapeT_def)

subsection \<open>Input seeding\<close>

lemma runRecursively_unfold:
  "runRecursively fsym he g ins m =
     bindE (getGraphInputShape g ins m) (runNodes fsym he (graphNodes g))"
  by (cases g) (simp add: bindE_def split: sum.splits)

lemma classify_unsupported:
  "seedSpec v = None \<Longrightarrow> classify v = Inl (Err ''Input type doesn't support yet.'' [])"
  by (cases v) (simp_all add: seedSpec_def classify_def)

lemma classify_supported:
  "seedSpec v = Some r \<Longrightarrow>
   \<exists>shape iv. classify v = Inr (shape, iv) \<and>
     r = \<lparr>listOfShape = [TShape shape], intValue = iv, dtype = DefaultScalarType\<rparr>"
  by (cases v) (auto simp: seedSpec_def classify_def tensorMeta_def intMeta_def intListMeta_def)

lemma seed_step:
  "setIntValue (emplaceShape m k (TShape shape)) k iv =
     m(k \<mapsto> (atKey m k)\<lparr>listOfShape := listOfShape (atKey m k) @ [TShape shape], intValue := iv\<rparr>)"
  by (simp add: setIntValue_def emplaceShape_def atKey_def)

lemma seeding_fails:
  assumes "\<exists>v\<in>set ins. seedSpec v = None" and "i + length ins \<le> length gins"
  shows "getGraphInputShape_from gins ins i m = Inl (Err ''Input type doesn't support yet.'' [])"
  using assms
proof (induction ins arbitrary: i m)
  case Nil
  then show ?case by simp
next
  case (Cons v vs)
  have i: "0 \<le> int i" "int i < int (length gins)" using Cons.prems(2) by simp_all
  show ?case
  proof (cases "seedSpec v")
    case None
    then show ?thesis using i by (simp add: classify_unsupported)
  next
    case (Some r)
    then obtain shape iv where c: "classify v = Inr (shape, iv)"
      using classify_supported by blast
    have ex: "\<exists>v\<in>set vs. seedSpec v = None" using Cons.prems(1) Some by auto
    have le: "Suc i + length vs \<le> length gins" using Cons.prems(2) by simp
    show ?thesis using i c Cons.IH [OF ex le] by simp
  qed
qed

lemma seeding_succeeds:
  assumes "\<forall>v\<in>set ins. seedSpec v \<noteq> None" and "i + length ins \<le> length gins"
    and "distinct gins" and "\<forall>j<length ins. m (gins ! (i + j)) = None"
  shows "\<exists>m'. getGraphInputShape_from gins ins i m = Inr m' \<and>
           (\<forall>j<length ins. m' (gins ! (i + j)) = seedSpec (ins ! j)) \<and>
           (\<forall>k. k \<notin> set (take (length ins) (drop i gins)) \<longrightarrow> m' k = m k)"
  using assms
proof (induction ins arbitrary: i m)
  case Nil
  then show ?case by simp
next
  case (Cons v vs)
  have i: "0 \<le> int i" "int i < int (length gins)" "i < length gins" using Cons.prems(2) by simp_all
  obtain r where r: "seedSpec v = Some r" using Cons.prems(1) by auto
  then obtain shape iv where c: "classify v = Inr (shape, iv)"
    and rr: "r = \<lparr>listOfShape = [TShape shape], intValue = iv, dtype = DefaultScalarType\<rparr>"
    using classify_supported by blast
  have mi: "m (gins ! i) = None" using Cons.prems(4) by force
  define m1 where "m1 = m(gins ! i \<mapsto> r)"
  have m1: "setIntValue (emplaceShape m (gins ! i) (TShape shape)) (gins ! i) iv = m1"
    using mi by (simp add: seed_step m1_def rr atKey_def emptyMeta_def)
  have sup: "\<forall>v\<in>set vs. seedSpec v \<noteq> None" using Cons.prems(1) by simp
  have le: "Suc i + length vs \<le> length gins" using Cons.prems(2) by simp
  have ne: "gins ! (Suc i + j) \<noteq> gins ! i" if "j < length vs" for j
    using that Cons.prems(2,3) by (simp add: nth_eq_iff_index_eq)
  have fresh: "\<forall>j<length vs. m1 (gins ! (Suc i + j)) = None"
  proof (intro allI impI)
    fix j assume j: "j < length vs"
    have "m (gins ! (i + Suc j)) = None" using Cons.prems(4) [rule_format, of "Suc j"] j by simp
    then show "m1 (gins ! (Suc i + j)) = None" using ne [OF j] by (simp add: m1_def)
  qed
  obtain m' where run: "getGraphInputShape_from gins vs (Suc i) m1 = Inr m'"
    and vals: "\<forall>j<length vs. m' (gins ! (Suc i + j)) = seedSpec (vs ! j)"
    and frame: "\<forall>k. k \<notin> set (take (length vs) (drop (Suc i) gins)) \<longrightarrow> m' k = m1 k"
    using Cons.IH [OF sup le Cons.prems(3) fresh] by blast
  have step: "getGraphInputShape_from gins (v # vs) i m = Inr m'"
    using i c m1 run by simp
  have notin: "gins ! i \<notin> set (take (length vs) (drop (Suc i) gins))"
  proof
    assume "gins ! i \<in> set (take (length vs) (drop (Suc i) gins))"
    then obtain j where j: "j < length (take (length vs) (drop (Suc i) gins))"
      and eq: "take (length vs) (drop (Suc i) gins) ! j = gins ! i"
      by (auto simp: in_set_conv_nth)
    have jl: "j < length vs" using j by simp
    have "gins ! (Suc i + j) = gins ! i" using eq j le by simp
    then show False using ne [OF jl] by simp
  qed
  have v0: "m' (gins ! i) = seedSpec v"
    using frame notin r by (simp add: m1_def)
  have vals': "\<forall>j<length (v # vs). m' (gins ! (i + j)) = seedSpec ((v # vs) ! j)"
  proof (intro allI impI)
    fix j assume "j < length (v # vs)"
    then show "m' (gins ! (i + j)) = seedSpec ((v # vs) ! j)"
      using v0 vals by (cases j) simp_all
  qed
  have dr: "take (length (v # vs)) (drop i gins) = gins ! i # take (length vs) (drop (Suc i) gins)"
    using i(3) by (simp add: Cons_nth_drop_Suc [symmetric])
  have frame': "\<forall>k. k \<notin> set (take (length (v # vs)) (drop i gins)) \<longrightarrow> m' k = m k"
    unfolding dr using frame by (simp add: m1_def)
  show ?case using step vals' frame' by blast
qed

text \<open>
  Claim C6. \<open>run\<close> fails with the arity error when the number of example inputs differs from
  the graph's input count. With equal counts, if some example value is of no supported kind,
  \<open>run\<close> fails with the unsupported-input-type error; if all are supported, the seeding of
  a fresh map (the graph inputs being distinct values) succeeds and gives every graph input
  the record of its example value: a tensor its dimensions and no payload, a boolean or
  integer scalar the shape \<open>[1]\<close> and its value, a list of integers the shape
  \<open>[length, 1]\<close> and the list; \<open>run\<close> then walks the nodes from that map.
\<close>

theorem run_input_seeding:
  assumes ins: "eng_inputs eng = ins" and g: "eng_graph eng = g"
  shows "(length ins \<noteq> length (graphInputs g) \<longrightarrow>
            run eng = Inl (Err ''Number of inputs mismatch between Graph and actual inputs'' [])) \<and>
         (length ins = length (graphInputs g) \<and> (\<exists>v\<in>set ins. seedSpec v = None) \<longrightarrow>
            run eng = Inl (Err ''Input type doesn't support yet.'' [])) \<and>
         (length ins = length (graphInputs g) \<and> (\<forall>v\<in>set ins. seedSpec v \<noteq> None) \<and>
          distinct (graphInputs g) \<and> eng_shapeMap eng = Map.empty \<longrightarrow>
            (\<exists>m. getGraphInputShape g ins Map.empty = Inr m \<and>
                 (\<forall>i<length ins. m (graphInputs g ! i) = seedSpec (ins ! i)) \<and>
                 run eng =
                   bindE (runNodes (eng_fusionNodeSymbol eng) (eng_hasEndOffset eng) (graphNodes g) m)
                     (\<lambda>m'. bindE (generateGraphOutputShape g m')
                       (\<lambda>outs. Inr (eng\<lparr>eng_shapeMap := m',
                                            eng_outputShape := eng_outputShape eng @ outs\<rparr>)))))"
proof -
  have p1: "length ins \<noteq> length (graphInputs g) \<longrightarrow>
            run eng = Inl (Err ''Number of inputs mismatch between Graph and actual inputs'' [])"
    using ins g by (simp add: run_def)
  have p2: "run eng = Inl (Err ''Input type doesn't support yet.'' [])"
    if "length ins = length (graphInputs g)" "\<exists>v\<in>set ins. seedSpec v = None"
  proof -
    have "getGraphInputShape g ins (eng_shapeMap eng) = Inl (Err ''Input type doesn't support yet.'' [])"
      unfolding getGraphInputShape_def using that by (intro seeding_fails) simp_all
    then show ?thesis using ins g that(1) by (simp add: run_def runRecursively_unfold)
  qed
  have p3: "\<exists>m. getGraphInputShape g ins Map.empty = Inr m \<and>
                 (\<forall>i<length ins. m (graphInputs g ! i) = seedSpec (ins ! i)) \<and>
                 run eng =
                   bindE (runNodes (eng_fusionNodeSymbol eng) (eng_hasEndOffset eng) (graphNodes g) m)
                     (\<lambda>m'. bindE (generateGraphOutputShape g m')
                       (\<lambda>outs. Inr (eng\<lparr>eng_shapeMap := m',
                                            eng_outputShape := eng_outputShape eng @ outs\<rparr>)))"
    if len: "length ins = length (graphInputs g)" and sup: "\<forall>v\<in>set ins. seedSpec v \<noteq> None"
      and dist: "distinct (graphInputs g)" and fresh: "eng_shapeMap eng = Map.empty"
  proof -
    obtain m where m: "getGraphInputShape g ins Map.empty = Inr m"
      and vals: "\<forall>i<length ins. m (graphInputs g ! i) = seedSpec (ins ! i)"
      using seeding_succeeds [of ins 0 "graphInputs g" Map.empty] len sup dist
      by (auto simp: getGraphInputShape_def)
    have "run eng =
            bindE (runNodes (eng_fusionNodeSymbol eng) (eng_hasEndOffset eng) (graphNodes g) m)
              (\<lambda>m'. bindE (generateGraphOutputShape g m')
                (\<lambda>outs. Inr (eng\<lparr>eng_shapeMap := m',
                                     eng_outputShape := eng_outputShape eng @ outs\<rparr>)))"
      using ins g len fresh m by (simp add: run_def runRecursively_unfold)
    then show ?thesis using m vals by blast
  qed
  show ?thesis using p1 p2 p3 by blast
qed

theorem run_input_seeding_witness:
  "run (ShapeInferenceEngine chunkGraph [IVTensor [3, 4]] ''glow::FusionGroup'' True)
     = Inl (Err ''Number of inputs mismatch between Graph and actual inputs'' []) \<and>
   run (ShapeInferenceEngine chunkGraph [IVTensor [3, 4], IVDouble, IVInt 0] ''glow::FusionGroup'' True)
     = Inl (Err ''Input type doesn't support yet.'' []) \<and>
   getGraphInputShape chunkGraph [IVTensor [3, 4], IVBool True, IVIntList [7, 8, 9]] Map.empty
     = Inr [Value 0 TensorType \<mapsto> tensorMeta [3, 4], Value 1 IntType \<mapsto> intMeta 1,
            Value 2 IntType \<mapsto> intListMeta [7, 8, 9]]"
  using run_input_seeding [of
      "ShapeInferenceEngine chunkGraph [IVTensor [3, 4]] ''glow::FusionGroup'' True"
      "[IVTensor [3, 4]]" chunkGraph]
    run_input_seeding [of
      "ShapeInferenceEngine chunkGraph [IVTensor [3, 4], IVDouble, IVInt 0] ''glow::FusionGroup'' True"
      "[IVTensor [3, 4], IVDouble, IVInt 0]" chunkGraph]
    run_input_seeding [of
      "ShapeInferenceEngine chunkGraph [IVTensor [3, 4], IVBool True, IVIntList [7, 8, 9]]
         ''glow::FusionGroup'' True"
      "[IVTensor [3, 4], IVBool True, IVIntList [7, 8, 9]]" chunkGraph]
  by (simp add: ShapeInferenceEngine_def chunkGraph_def seedSpec_def getGraphInputShape_def
      classify_def setIntValue_def emplaceShape_def atKey_def emptyMeta_def tensorMeta_def
      intMeta_def intListMeta_def)

subsection \<open>Failures and their propagation\<close>

text \<open>A failure of a shape function, of the dispatcher or of a recursive walk is returned as
  it is by every caller up to \<open>run\<close>.\<close>

lemma dispatch_failure_propagates:
  assumes "getNodeInputShape node m = Inr ms" and "dispatchOp he node ms = Inl e"
  shows "shapeOnNode he node m = Inl e"
  using assms by (simp add: shapeOnNode_def)

lemma node_failure_propagates:
  assumes "nodeSubgraph node = None" and "shapeOnNode he node m = Inl e"
  shows "runNodes fsym he (node # rest) m = Inl e"
  using assms by (cases node) simp

lemma subgraph_failure_propagates:
  assumes "nodeSubgraph node = Some sg" and "prefix fsym (nodeKind node)"
    and "mapE (materialize m) (nodeInputs node) = Inr si"
    and "runRecursively fsym he sg si m = Inl e"
  shows "runNodes fsym he (node # rest) m = Inl e"
  using assms by (cases node) simp

lemma later_failure_propagates:
  assumes "runNodes fsym he ns m = Inr m'" and "runNodes fsym he ns' m' = Inl e"
  shows "runNodes fsym he (ns @ ns') m = Inl e"
  using assms
proof (induction ns arbitrary: m)
  case Nil
  then show ?case by simp
next
  case (Cons n ns)
  obtain kind nins nouts attrs sg where n: "n = Node kind nins nouts attrs sg" by (cases n)
  show ?case
    using Cons.prems Cons.IH unfolding n
    by (simp split: sum.splits option.splits if_splits)
qed

lemma walk_failure_reaches_run:
  assumes "length (eng_inputs eng) = length (graphInputs (eng_graph eng))"
    and "runRecursively (eng_fusionNodeSymbol eng) (eng_hasEndOffset eng) (eng_graph eng)
           (eng_inputs eng) (eng_shapeMap eng) = Inl e"
  shows "run eng = Inl e"
  using assms by (simp add: run_def)

text \<open>
  Claim C7 says that a malformed rank gives a typed failure and never an out-of-range
  access. The arity is checked by every shape function, the rank is not: \<open>chunk\<close> on a
  tensor of rank 0 wraps the axis 0 to 0 and reads \<^verbatim>\<open>t[0]\<close> of the empty shape, also when
  reached from \<open>run\<close> through the dispatcher; the byte-rowwise embedding bag reads \<^verbatim>\<open>t0[1]\<close>
  of a weight of rank 1.
\<close>

theorem rank_unchecked_out_of_range:
  "chunk [tensorMeta [], intMeta 2, intMeta 0] = Inl (Fault IndexOutOfRange) \<and>
   run (ShapeInferenceEngine chunkGraph [IVTensor [], IVInt 2, IVInt 0] ''glow::FusionGroup'' True)
     = Inl (Fault IndexOutOfRange) \<and>
   embeddingBagByteRowwiseOffsets True
     [tensorMeta [16], tensorMeta [4], tensorMeta [3], intMeta 0, intMeta 0, intMeta 0,
      emptyMeta, intMeta 1] = Inl (Fault IndexOutOfRange)"
  by (simp add: chunk_def maybe_wrap_dim_def embeddingBagByteRowwiseOffsets_def
      run_def ShapeInferenceEngine_def chunkGraph_def getGraphInputShape_def classify_def
      setIntValue_def emplaceShape_def atKey_def emptyMeta_def shapeOnNode_def
      getNodeInputShape_def findChecked_def dispatchOp_def shapeT_def tensorMeta_def intMeta_def)

end
